theory Spec2Isabelle
  imports Main "HOL-Library.Sublist"
begin

section \<open>Strings as the plugins use them\<close>

text \<open>
  JavaScript strings are modelled as \<^typ>\<open>string\<close>. The string helpers below act on
  the ASCII range: \<open>toUpperCase\<close> maps \<open>a\<close>..\<open>z\<close> to \<open>A\<close>..\<open>Z\<close> and leaves every other
  character alone, and white space is the ASCII white space of the regular expression
  class \<open>\s\<close> (space, tab, line feed, vertical tab, form feed, carriage return).
\<close>

definition toUpperCase_char :: "char \<Rightarrow> char" where
  "toUpperCase_char c =
     (let n = (of_char c :: nat) in if 97 \<le> n \<and> n \<le> 122 then char_of (n - 32) else c)"

definition toUpperCase :: "string \<Rightarrow> string" where
  "toUpperCase s = map toUpperCase_char s"

text \<open>\<open>x ?? ""\<close> for an optional string field of a parsed JSON object.\<close>

definition orEmpty :: "string option \<Rightarrow> string" where
  "orEmpty v = (case v of None \<Rightarrow> [] | Some s \<Rightarrow> s)"

section \<open>scm-github: CI summary and merge readiness\<close>

datatype CICheckStatus = check_pending | check_running | check_passed | check_failed | check_skipped

datatype CIStatus = passing | failing | pending | none

text \<open>The text a \<open>CIStatus\<close> has inside a template string.\<close>

fun CIStatus_text :: "CIStatus \<Rightarrow> string" where
  "CIStatus_text passing = ''passing''"
| "CIStatus_text failing = ''failing''"
| "CIStatus_text pending = ''pending''"
| "CIStatus_text none = ''none''"

text \<open>One element of the JSON array printed by \<open>gh pr checks --json ...\<close>.\<close>

record gh_check =
  check_name :: string
  check_state :: "string option"
  check_conclusion :: "string option"

text \<open>The status that the callback of \<open>checks.map\<close> in \<open>getCIChecks\<close> computes.\<close>

definition check_status :: "gh_check \<Rightarrow> CICheckStatus" where
  "check_status c =
     (let state = map_option toUpperCase (check_state c);
          conclusion = map_option toUpperCase (check_conclusion c)
      in if state = Some ''PENDING'' \<or> state = Some ''QUEUED'' then check_pending
         else if state = Some ''IN_PROGRESS'' then check_running
         else if conclusion = Some ''SUCCESS'' then check_passed
         else if conclusion = Some ''FAILURE'' \<or> conclusion = Some ''TIMED_OUT'' then check_failed
         else if conclusion = Some ''SKIPPED'' \<or> conclusion = Some ''NEUTRAL'' then check_skipped
         else check_pending)"

text \<open>
  \<open>getCIChecks\<close>: the outcome of the \<open>gh\<close> call is an input, \<open>Inl\<close> when the call or
  \<open>JSON.parse\<close> throws; the \<open>catch\<close> turns that into the empty list.
\<close>

definition getCIChecks :: "string + gh_check list \<Rightarrow> CICheckStatus list" where
  "getCIChecks gh_checks =
     (case gh_checks of Inl err \<Rightarrow> [] | Inr checks \<Rightarrow> map check_status checks)"

definition getCISummary :: "string + gh_check list \<Rightarrow> CIStatus" where
  "getCISummary gh_checks =
     (let checks = getCIChecks gh_checks
      in if length checks = 0 then none
         else if list_ex (\<lambda>c. c = check_failed) checks then failing
         else if list_ex (\<lambda>c. c = check_pending \<or> c = check_running) checks then pending
         else passing)"

text \<open>The object parsed from \<open>gh pr view --json mergeable,reviewDecision,mergeStateStatus,isDraft\<close>.\<close>

record gh_pr_view =
  view_mergeable :: "string option"
  view_reviewDecision :: "string option"
  view_mergeStateStatus :: "string option"
  view_isDraft :: bool

record MergeReadiness =
  mergeable :: bool
  ciPassing :: bool
  approved :: bool
  noConflicts :: bool
  blockers :: "string list"

text \<open>
  \<open>getMergeability\<close>. The first \<open>gh\<close> call is not caught, so its failure is the
  failure of the whole call. \<open>blockers.push(x)\<close> is \<open>blockers @ [x]\<close>, and each
  \<open>let\<close> line below is one statement of the source, in the source's order.
\<close>

definition getMergeability ::
  "string + gh_pr_view \<Rightarrow> string + gh_check list \<Rightarrow> string + MergeReadiness" where
  "getMergeability gh_view gh_checks =
     (case gh_view of
        Inl err \<Rightarrow> Inl err
      | Inr data \<Rightarrow>
          (let blockers0 = [];
               ciStatus = getCISummary gh_checks;
               ciPassing' = (ciStatus = passing \<or> ciStatus = none);
               blockers1 = (if \<not> ciPassing' then blockers0 @ [''CI is '' @ CIStatus_text ciStatus]
                            else blockers0);
               reviewDecision = toUpperCase (orEmpty (view_reviewDecision data));
               approved' = (reviewDecision = ''APPROVED'');
               blockers2 = (if reviewDecision = ''CHANGES_REQUESTED''
                            then blockers1 @ [''Changes requested in review'']
                            else if reviewDecision = ''REVIEW_REQUIRED''
                            then blockers1 @ [''Review required'']
                            else blockers1);
               mergeable' = toUpperCase (orEmpty (view_mergeable data));
               noConflicts' = (mergeable' \<noteq> ''CONFLICTING'');
               blockers3 = (if \<not> noConflicts' then blockers2 @ [''Merge conflicts'']
                            else blockers2);
               blockers4 = (if view_isDraft data then blockers3 @ [''PR is still a draft'']
                            else blockers3)
           in Inr \<lparr> mergeable = (length blockers4 = 0),
                    ciPassing = ciPassing',
                    approved = approved',
                    noConflicts = noConflicts',
                    blockers = blockers4 \<rparr>))"

text \<open>The order in which blockers can appear, first to last.\<close>

definition blocker_order :: "string list" where
  "blocker_order = [''CI is failing'', ''CI is pending'', ''Changes requested in review'',
     ''Review required'', ''Merge conflicts'', ''PR is still a draft'']"

text \<open>Two pull requests and two check lists used as concrete inputs.\<close>

definition view_ready :: gh_pr_view where
  "view_ready = \<lparr> view_mergeable = Some ''MERGEABLE'', view_reviewDecision = Some ''APPROVED'',
      view_mergeStateStatus = Some ''CLEAN'', view_isDraft = False \<rparr>"

definition view_rejected :: gh_pr_view where
  "view_rejected = \<lparr> view_mergeable = Some ''CONFLICTING'',
      view_reviewDecision = Some ''changes_requested'',
      view_mergeStateStatus = None, view_isDraft = True \<rparr>"

definition checks_green :: "gh_check list" where
  "checks_green = [\<lparr> check_name = ''build'', check_state = Some ''COMPLETED'',
                     check_conclusion = Some ''success'' \<rparr>]"

definition checks_red :: "gh_check list" where
  "checks_red = [\<lparr> check_name = ''build'', check_state = Some ''COMPLETED'',
                   check_conclusion = Some ''SUCCESS'' \<rparr>,
                 \<lparr> check_name = ''test'', check_state = Some ''COMPLETED'',
                   check_conclusion = Some ''FAILURE'' \<rparr>,
                 \<lparr> check_name = ''lint'', check_state = Some ''QUEUED'',
                   check_conclusion = None \<rparr>]"

section \<open>notifier-webhook: delivery with retries\<close>

text \<open>An event as \<open>serializeEvent\<close> lays it out; the timestamp is its ISO text.\<close>

record OrchestratorEvent =
  event_id :: string
  event_type :: string
  event_priority :: string
  event_sessionId :: string
  event_projectId :: string
  event_timestamp :: string
  event_message :: string
  event_data :: string

record NotifyAction =
  action_label :: string
  action_url :: "string option"
  action_callbackEndpoint :: "string option"

text \<open>The three shapes of \<open>WebhookPayload\<close>, by their \<open>type\<close> field.\<close>

datatype WebhookPayload =
    notification OrchestratorEvent
  | notification_with_actions OrchestratorEvent "NotifyAction list"
  | message string "string option"

text \<open>
  A thrown value: an \<open>Error\<close> or a \<open>TypeError\<close> with its message, or a value that is not an
  \<open>Error\<close>, with its \<open>String(err)\<close> text. \<open>asError\<close> is
  \<open>err instanceof Error ? err : new Error(String(err))\<close>, and \<open>errorMessage\<close> is
  \<open>err instanceof Error ? err.message : String(err)\<close>.
\<close>

datatype thrown = Error string | TypeError string | NonError string

fun asError :: "thrown \<Rightarrow> thrown" where
  "asError (Error msg) = Error msg"
| "asError (TypeError msg) = TypeError msg"
| "asError (NonError text) = Error text"

fun errorMessage :: "thrown \<Rightarrow> string" where
  "errorMessage (Error msg) = msg"
| "errorMessage (TypeError msg) = msg"
| "errorMessage (NonError text) = text"

text \<open>
  What one \<open>fetch\<close> call does: it resolves to a response with its \<open>ok\<close> flag, its
  status and the outcome of \<open>response.text()\<close>, or it rejects. Every call settles.
\<close>

datatype fetch_outcome =
    Response bool nat "thrown + string"
  | FetchRejects thrown

text \<open>The decimal text of a status code inside a template string.\<close>

fun digits :: "nat \<Rightarrow> string" where
  "digits n = (if n < 10 then [char_of (48 + n)]
               else digits (n div 10) @ [char_of (48 + n mod 10)])"

fun response_ok :: "fetch_outcome \<Rightarrow> bool" where
  "response_ok (Response ok status body) = ok"
| "response_ok (FetchRejects err) = False"

text \<open>The value assigned to \<open>lastError\<close> by an attempt that does not return.\<close>

fun attempt_error :: "fetch_outcome \<Rightarrow> thrown" where
  "attempt_error (Response ok status (Inr body)) =
     Error (''Webhook POST failed ('' @ digits status @ ''): '' @ body)"
| "attempt_error (Response ok status (Inl err)) = asError err"
| "attempt_error (FetchRejects err) = asError err"

text \<open>
  The effects of a delivery, in order: an HTTP request (URL, headers in the order of the
  object literal, payload) and a timer of so many milliseconds.
\<close>

datatype effect =
    Fetch string "(string \<times> string) list" WebhookPayload
  | SetTimeout int

text \<open>
  The \<open>for\<close> loop of \<open>postWithRetry\<close>, from the value \<open>attempt\<close> of its counter and the
  current \<open>lastError\<close>. \<open>fetch k\<close> is the outcome of the \<open>k\<close>-th request of this delivery.
  The result is the effects performed and \<open>Inr ()\<close> for a return, \<open>Inl e\<close> for
  \<open>throw lastError\<close> (\<open>Inl None\<close> when \<open>lastError\<close> is still undefined).
\<close>

function postWithRetry_from ::
  "(nat \<Rightarrow> fetch_outcome) \<Rightarrow> string \<Rightarrow> WebhookPayload \<Rightarrow> (string \<times> string) list
     \<Rightarrow> int \<Rightarrow> int \<Rightarrow> int \<Rightarrow> thrown option \<Rightarrow> effect list \<times> (thrown option + unit)" where
  "postWithRetry_from fetch url payload headers retries retryDelayMs attempt lastError =
     (if attempt \<le> retries then
        (let request = Fetch url ((''Content-Type'', ''application/json'') # headers) payload;
             outcome = fetch (nat attempt)
         in if response_ok outcome then ([request], Inr ())
            else (let lastError' = Some (attempt_error outcome);
                      delay = (if attempt < retries then [SetTimeout retryDelayMs] else []);
                      (effects, result) = postWithRetry_from fetch url payload headers retries
                                            retryDelayMs (attempt + 1) lastError'
                  in (request # delay @ effects, result)))
      else ([], Inl lastError))"
  by pat_completeness auto
termination
  by (relation "measure (\<lambda>(fetch, url, payload, headers, retries, retryDelayMs, attempt, lastError).
                  nat (retries + 1 - attempt))") auto

definition postWithRetry ::
  "(nat \<Rightarrow> fetch_outcome) \<Rightarrow> string \<Rightarrow> WebhookPayload \<Rightarrow> (string \<times> string) list
     \<Rightarrow> int \<Rightarrow> int \<Rightarrow> effect list \<times> (thrown option + unit)" where
  "postWithRetry fetch url payload headers retries retryDelayMs =
     postWithRetry_from fetch url payload headers retries retryDelayMs 0 None"

text \<open>The configuration object handed to \<open>create\<close>; an absent key is \<open>None\<close>.\<close>

record WebhookNotifierConfig =
  config_url :: "string option"
  config_headers :: "(string \<times> string) list option"
  config_retries :: "int option"
  config_retryDelayMs :: "int option"

text \<open>The constants that the notifier's methods close over.\<close>

record WebhookNotifier =
  url :: "string option"
  customHeaders :: "(string \<times> string) list"
  retries :: int
  retryDelayMs :: int

text \<open>\<open>!url\<close>: undefined and the empty string are falsy.\<close>

definition jsFalsy :: "string option \<Rightarrow> bool" where
  "jsFalsy v = (v = None \<or> v = Some [])"

text \<open>
  \<open>create\<close> of the webhook plugin: the lines written by \<open>console.warn\<close> (the dash of the
  source's message is written \<open>-\<close>) and the notifier.
\<close>

definition webhook_create :: "WebhookNotifierConfig option \<Rightarrow> string list \<times> WebhookNotifier" where
  "webhook_create config =
     (let url' = Option.bind config config_url;
          customHeaders' = (case Option.bind config config_headers of None \<Rightarrow> [] | Some h \<Rightarrow> h);
          retries' = (case Option.bind config config_retries of None \<Rightarrow> 2 | Some r \<Rightarrow> r);
          retryDelayMs' =
            (case Option.bind config config_retryDelayMs of None \<Rightarrow> 1000 | Some d \<Rightarrow> d);
          warnings = (if jsFalsy url'
                      then [''[notifier-webhook] No url configured - notifications will be no-ops'']
                      else [])
      in (warnings, \<lparr> url = url', customHeaders = customHeaders', retries = retries',
                      retryDelayMs = retryDelayMs' \<rparr>))"

definition serializeEvent :: "OrchestratorEvent \<Rightarrow> OrchestratorEvent" where
  "serializeEvent event =
     \<lparr> event_id = event_id event, event_type = event_type event,
       event_priority = event_priority event, event_sessionId = event_sessionId event,
       event_projectId = event_projectId event, event_timestamp = event_timestamp event,
       event_message = event_message event, event_data = event_data event \<rparr>"

definition webhook_notify ::
  "WebhookNotifier \<Rightarrow> (nat \<Rightarrow> fetch_outcome) \<Rightarrow> OrchestratorEvent
     \<Rightarrow> effect list \<times> (thrown option + unit)" where
  "webhook_notify n fetch event =
     (if jsFalsy (url n) then ([], Inr ())
      else postWithRetry fetch (the (url n)) (notification (serializeEvent event))
             (customHeaders n) (retries n) (retryDelayMs n))"

definition webhook_notifyWithActions ::
  "WebhookNotifier \<Rightarrow> (nat \<Rightarrow> fetch_outcome) \<Rightarrow> OrchestratorEvent \<Rightarrow> NotifyAction list
     \<Rightarrow> effect list \<times> (thrown option + unit)" where
  "webhook_notifyWithActions n fetch event actions =
     (if jsFalsy (url n) then ([], Inr ())
      else postWithRetry fetch (the (url n))
             (notification_with_actions (serializeEvent event)
                (map (\<lambda>a. \<lparr> action_label = action_label a, action_url = action_url a,
                              action_callbackEndpoint = action_callbackEndpoint a \<rparr>) actions))
             (customHeaders n) (retries n) (retryDelayMs n))"

text \<open>\<open>post\<close> returns \<open>null\<close> (\<open>Inr None\<close>) whenever it returns.\<close>

definition webhook_post ::
  "WebhookNotifier \<Rightarrow> (nat \<Rightarrow> fetch_outcome) \<Rightarrow> string \<Rightarrow> string option
     \<Rightarrow> effect list \<times> (thrown option + string option)" where
  "webhook_post n fetch msg context =
     (if jsFalsy (url n) then ([], Inr None)
      else (case postWithRetry fetch (the (url n)) (message msg context)
                   (customHeaders n) (retries n) (retryDelayMs n) of
              (effects, Inl err) \<Rightarrow> (effects, Inl err)
            | (effects, Inr returned) \<Rightarrow> (effects, Inr None)))"

text \<open>
  The retry policy, as a predicate on one run of a delivery. \<open>attempts_with_delay request d n\<close>
  is \<open>n\<close> requests with a timer of \<open>d\<close> ms between consecutive ones. A run follows the
  policy for retry count \<open>r\<close> when, for some \<open>k \<le> r\<close>, it consists of \<open>k + 1\<close> attempts so
  spaced, the first \<open>k\<close> of them failed, and either attempt \<open>k\<close> got an ok response and the
  run returned, or \<open>k = r\<close> and the run threw the error of attempt \<open>k\<close>.
\<close>

fun attempts_with_delay :: "effect \<Rightarrow> int \<Rightarrow> nat \<Rightarrow> effect list" where
  "attempts_with_delay request d 0 = []"
| "attempts_with_delay request d (Suc 0) = [request]"
| "attempts_with_delay request d (Suc (Suc n)) =
     request # SetTimeout d # attempts_with_delay request d (Suc n)"

fun isFetch :: "effect \<Rightarrow> bool" where
  "isFetch (Fetch u h p) = True"
| "isFetch (SetTimeout d) = False"

definition request_of :: "WebhookNotifier \<Rightarrow> WebhookPayload \<Rightarrow> effect" where
  "request_of n payload =
     Fetch (the (url n)) ((''Content-Type'', ''application/json'') # customHeaders n) payload"

definition delivers_with_retries ::
  "(nat \<Rightarrow> fetch_outcome) \<Rightarrow> effect \<Rightarrow> int \<Rightarrow> int
     \<Rightarrow> effect list \<times> (thrown option + 'a) \<Rightarrow> bool" where
  "delivers_with_retries fetch request r d run =
     (\<exists>k. int k \<le> r
        \<and> fst run = attempts_with_delay request d (Suc k)
        \<and> length (filter isFetch (fst run)) = Suc k
        \<and> (\<forall>j<k. \<not> response_ok (fetch j))
        \<and> (if response_ok (fetch k) then \<not> isl (snd run)
            else int k = r \<and> snd run = Inl (Some (attempt_error (fetch k)))))"

text \<open>Concrete inputs: a configuration with only a URL, an event, and two servers.\<close>

definition config_url_only :: WebhookNotifierConfig where
  "config_url_only = \<lparr> config_url = Some ''https://hooks.example/ao'', config_headers = None,
      config_retries = None, config_retryDelayMs = None \<rparr>"

definition test_event :: OrchestratorEvent where
  "test_event = \<lparr> event_id = ''test-1'', event_type = ''session.working'',
      event_priority = ''action'', event_sessionId = ''test-session'',
      event_projectId = ''test-project'', event_timestamp = ''2026-01-01T00:00:00.000Z'',
      event_message = ''test'', event_data = ''{}'' \<rparr>"

definition fetch_third_ok :: "nat \<Rightarrow> fetch_outcome" where
  "fetch_third_ok k = (if k = 2 then Response True 200 (Inr ''ok'')
                       else Response False 503 (Inr ''busy''))"

definition fetch_never_ok :: "nat \<Rightarrow> fetch_outcome" where
  "fetch_never_ok k = (if k = 2 then FetchRejects (NonError ''ECONNRESET'')
                       else Response False 503 (Inr ''busy''))"

section \<open>Sessions and runtime handles\<close>

text \<open>
  A runtime handle. \<open>handle_id\<close> is its \<open>id\<close> field. Of the \<open>data\<close> bag only the \<open>pid\<close> entry
  is read, and only through
  \<open>typeof rawPid === "number" ? rawPid : Number(rawPid)\<close>: \<open>handle_pid\<close> is the value of that
  expression, an integer or a value that is not a finite number (\<open>NaN\<close> for a missing or
  non-numeric entry, an infinity). A finite value that is not an integer is not modelled.
\<close>

datatype js_number = Finite int | NotFinite

record RuntimeHandle =
  runtimeName :: string
  handle_id :: string
  handle_pid :: js_number

record Session =
  session_id :: string
  session_projectId :: string
  runtimeHandle :: "RuntimeHandle option"

section \<open>The CLI's plugin tables\<close>

text \<open>
  The plugin tables are object literals indexed with \<open>table[name]\<close>. Such a lookup finds
  the table's own keys and, for the names of the properties of \<open>Object.prototype\<close>, an
  inherited value that is not a plugin; for every other name it is \<open>undefined\<close>.
\<close>

datatype 'a property = Own 'a | Inherited string | Undefined

definition objectPrototypeKeys :: "string list" where
  "objectPrototypeKeys =
     [''constructor'', ''__defineGetter__'', ''__defineSetter__'', ''hasOwnProperty'',
      ''__lookupGetter__'', ''__lookupSetter__'', ''isPrototypeOf'', ''propertyIsEnumerable'',
      ''toString'', ''valueOf'', ''__proto__'', ''toLocaleString'']"

definition js_get :: "(string \<times> 'a) list \<Rightarrow> string \<Rightarrow> 'a property" where
  "js_get obj key =
     (case map_of obj key of
        Some v \<Rightarrow> Own v
      | None \<Rightarrow> if key \<in> set objectPrototypeKeys then Inherited key else Undefined)"

text \<open>
  Calling \<open>.create(...)\<close> on an inherited value: \<open>Object.create\<close> (reached through
  \<open>constructor\<close>) rejects an argument that is not an object or \<open>null\<close>; the other inherited
  values have no \<open>create\<close>.
\<close>

definition inherited_create_error :: "string \<Rightarrow> thrown" where
  "inherited_create_error key =
     (if key = ''constructor''
      then TypeError ''Object prototype may only be an Object or null: undefined''
      else TypeError ''plugin.create is not a function'')"

text \<open>\<open>xs.join(sep)\<close>.\<close>

fun join :: "string \<Rightarrow> string list \<Rightarrow> string" where
  "join sep [] = []"
| "join sep [x] = x"
| "join sep (x # y # ys) = x @ sep @ join sep (y # ys)"

datatype agent_plugin = claudeCodePlugin | codexPlugin | aiderPlugin

datatype scm_plugin = githubSCMPlugin

datatype notifier_plugin =
  desktopNotifierPlugin | slackNotifierPlugin | webhookNotifierPlugin | composioNotifierPlugin

definition agentPlugins :: "(string \<times> agent_plugin) list" where
  "agentPlugins = [(''claude-code'', claudeCodePlugin), (''codex'', codexPlugin),
                   (''aider'', aiderPlugin)]"

definition scmPlugins :: "(string \<times> scm_plugin) list" where
  "scmPlugins = [(''github'', githubSCMPlugin)]"

definition notifierPlugins :: "(string \<times> notifier_plugin) list" where
  "notifierPlugins = [(''desktop'', desktopNotifierPlugin), (''slack'', slackNotifierPlugin),
                      (''webhook'', webhookNotifierPlugin), (''composio'', composioNotifierPlugin)]"

text \<open>The parts of the loaded configuration that the resolvers and commands read.\<close>

record ProjectConfig =
  project_agent :: "string option"
  project_scm_plugin :: "string option"
  project_runtime :: "string option"

record NotifierConfig =
  nc_plugin :: string
  nc_rest :: "(string \<times> string) list"

record OrchestratorConfig =
  projects :: "string \<Rightarrow> ProjectConfig option"
  defaults_agent :: string
  notifiers :: "string \<Rightarrow> NotifierConfig option"

text \<open>\<open>a || b\<close> on an optional string.\<close>

definition orElse :: "string option \<Rightarrow> string \<Rightarrow> string" where
  "orElse a b = (if jsFalsy a then b else the a)"

text \<open>
  The resolvers. A resolved agent or SCM is named by its plugin: the value is what that
  plugin's \<open>create()\<close> returns.
\<close>

definition getAgentByName :: "string \<Rightarrow> thrown + agent_plugin" where
  "getAgentByName name =
     (case js_get agentPlugins name of
        Undefined \<Rightarrow> Inl (Error (''Unknown agent plugin: '' @ name))
      | Own plugin \<Rightarrow> Inr plugin
      | Inherited key \<Rightarrow> Inl (inherited_create_error key))"

definition getAgent :: "OrchestratorConfig \<Rightarrow> string option \<Rightarrow> thrown + agent_plugin" where
  "getAgent config projectId =
     (let agentName =
            orElse (if jsFalsy projectId then None
                    else Option.bind (projects config (the projectId)) project_agent)
                   (defaults_agent config)
      in case js_get agentPlugins agentName of
           Undefined \<Rightarrow> Inl (Error (''Unknown agent plugin: '' @ agentName))
         | Own plugin \<Rightarrow> Inr plugin
         | Inherited key \<Rightarrow> Inl (inherited_create_error key))"

definition getSCM :: "OrchestratorConfig \<Rightarrow> string \<Rightarrow> thrown + scm_plugin" where
  "getSCM config projectId =
     (let scmName = orElse (Option.bind (projects config projectId) project_scm_plugin) ''github''
      in case js_get scmPlugins scmName of
           Undefined \<Rightarrow> Inl (Error (''Unknown SCM plugin: '' @ scmName))
         | Own plugin \<Rightarrow> Inr plugin
         | Inherited key \<Rightarrow> Inl (inherited_create_error key))"

text \<open>\<open>getNotifier\<close> returns what the lookup found without calling it.\<close>

definition getNotifier :: "string \<Rightarrow> thrown + notifier_plugin property" where
  "getNotifier name =
     (case js_get notifierPlugins name of
        Undefined \<Rightarrow>
          Inl (Error (''Unknown notifier plugin: '' @ [CHR 0x22] @ name @ [CHR 0x22]
                      @ ''. Available: '' @ join '', '' (map fst notifierPlugins)))
      | found \<Rightarrow> Inr found)"

section \<open>The web route that sends a message to a session\<close>

datatype json_body = error_body string | success_body bool

text \<open>
  \<open>POST\<close>. Its inputs are the outcome of \<open>request.json()\<close> (the \<open>message\<close> field, or the
  value thrown), the session store, the configured projects, the registry's \<open>get\<close> for the
  runtime slot (\<open>None\<close> is a falsy result) and what the runtime's \<open>sendMessage\<close> does. The
  result is the JSON body and the HTTP status.
\<close>

definition POST ::
  "(string \<Rightarrow> string \<Rightarrow> 'r option) \<Rightarrow> ('r \<Rightarrow> RuntimeHandle \<Rightarrow> string \<Rightarrow> thrown + unit)
     \<Rightarrow> (string \<Rightarrow> ProjectConfig option) \<Rightarrow> (string \<Rightarrow> Session option)
     \<Rightarrow> string \<Rightarrow> thrown + string option \<Rightarrow> json_body \<times> nat" where
  "POST registry_get sendMessage config_projects sessionManager_get ident request_json =
     (case request_json of
        Inl err \<Rightarrow> (error_body ''Internal server error'', 500)
      | Inr msg \<Rightarrow>
          if jsFalsy msg then (error_body ''Missing message'', 400)
          else (case sessionManager_get ident of
              None \<Rightarrow> (error_body ''Session not found'', 404)
            | Some session \<Rightarrow>
                (case runtimeHandle session of
                   None \<Rightarrow> (error_body ''Session has no runtime handle'', 400)
                 | Some handle \<Rightarrow>
                     (case config_projects (session_projectId session) of
                        None \<Rightarrow> (error_body ''Project not found'', 404)
                      | Some project \<Rightarrow>
                          if jsFalsy (project_runtime project)
                          then (error_body ''Project has no runtime configured'', 500)
                          else (case registry_get ''runtime'' (the (project_runtime project)) of
                              None \<Rightarrow> (error_body ''Runtime plugin not found'', 500)
                            | Some runtime \<Rightarrow>
                                (case sendMessage runtime handle (the msg) of
                                   Inr sent \<Rightarrow> (success_body True, 200)
                                 | Inl err \<Rightarrow>
                                     (error_body (''Failed to send message: '' @ errorMessage err),
                                      500)))))))"

text \<open>Concrete inputs: a session in a project whose runtime is not registered.\<close>

definition session_s1 :: Session where
  "session_s1 = \<lparr> session_id = ''s1'', session_projectId = ''app'',
      runtimeHandle = Some \<lparr> runtimeName = ''tmux'', handle_id = ''s1'', handle_pid = NotFinite \<rparr> \<rparr>"

definition project_docker :: ProjectConfig where
  "project_docker = \<lparr> project_agent = None, project_scm_plugin = Some ''gitlab'',
      project_runtime = Some ''docker'' \<rparr>"

definition registry_empty :: "string \<Rightarrow> string \<Rightarrow> unit option" where
  "registry_empty slot name = None"

definition sendMessage_ok :: "unit \<Rightarrow> RuntimeHandle \<Rightarrow> string \<Rightarrow> thrown + unit" where
  "sendMessage_ok runtime handle msg = Inr ()"

definition projects_app :: "string \<Rightarrow> ProjectConfig option" where
  "projects_app p = (if p = ''app'' then Some project_docker else None)"

definition sessions_s1 :: "string \<Rightarrow> Session option" where
  "sessions_s1 i = (if i = ''s1'' then Some session_s1 else None)"

section \<open>The CLI's notify test command\<close>

text \<open>
  A notifier is what its \<open>notify\<close> does with an event: it resolves or it rejects with a
  value. A notifier plugin's \<open>create\<close> maps the options to a notifier or throws.
\<close>

type_synonym Notifier = "OrchestratorEvent \<Rightarrow> thrown + unit"

type_synonym NotifierModule = "(string \<times> string) list \<Rightarrow> thrown + Notifier"

text \<open>\<open>makeTestEvent\<close>; \<open>now\<close> is the text of the clock reading.\<close>

definition makeTestEvent :: "string \<Rightarrow> string \<Rightarrow> OrchestratorEvent" where
  "makeTestEvent now priority =
     \<lparr> event_id = ''test-'' @ now, event_type = ''session.working'', event_priority = priority,
       event_sessionId = ''test-session'', event_projectId = ''test-project'',
       event_timestamp = now,
       event_message = ''This is a test notification from Agent Orchestrator (priority: ''
                         @ priority @ '')'',
       event_data = ''{}'' \<rparr>"

record test_result =
  result_name :: string
  success :: bool
  error :: "string option"

definition testNotifier :: "string \<Rightarrow> string \<Rightarrow> Notifier \<Rightarrow> string \<Rightarrow> test_result" where
  "testNotifier now name notifier priority =
     (case notifier (makeTestEvent now priority) of
        Inr delivered \<Rightarrow> \<lparr> result_name = name, success = True, error = None \<rparr>
      | Inl err \<Rightarrow> \<lparr> result_name = name, success = False, error = Some (errorMessage err) \<rparr>)"

text \<open>
  \<open>createNotifier\<close>; \<open>modules\<close> gives each imported notifier plugin its \<open>create\<close>. For an
  inherited value \<open>Object.create(rest)\<close> makes an object that has no \<open>notify\<close>, and the
  other inherited values have no \<open>create\<close>. The last case is there for totality only:
  \<open>getNotifier\<close> never returns \<open>undefined\<close>.
\<close>

definition createNotifier ::
  "(notifier_plugin \<Rightarrow> NotifierModule) \<Rightarrow> string \<Rightarrow> NotifierConfig \<Rightarrow> thrown + Notifier" where
  "createNotifier modules name notifierConfig =
     (case getNotifier (nc_plugin notifierConfig) of
        Inl err \<Rightarrow> Inl err
      | Inr (Own pluginModule) \<Rightarrow> modules pluginModule (nc_rest notifierConfig)
      | Inr (Inherited key) \<Rightarrow>
          if key = ''constructor''
          then Inr (\<lambda>event. Inl (TypeError ''notifier.notify is not a function''))
          else Inl (TypeError ''pluginModule.create is not a function'')
      | Inr Undefined \<Rightarrow> Inl (TypeError ''Cannot read properties of undefined''))"

text \<open>The lines the loop prints, and the state it carries from one notifier to the next.\<close>

datatype console_line =
    skip string
  | FAIL_plugin_error string string
  | OK string string
  | FAIL string string string

record notify_run =
  allPassed :: bool
  console :: "console_line list"
  notify_calls :: "string list"

text \<open>
  The \<open>for (const name of notifierNames)\<close> loop of the \<open>notify test\<close> action.
  \<open>notify_calls\<close> lists, in order, the notifiers whose \<open>notify\<close> was called.
\<close>

fun notify_each ::
  "string \<Rightarrow> OrchestratorConfig \<Rightarrow> (notifier_plugin \<Rightarrow> NotifierModule) \<Rightarrow> string
     \<Rightarrow> string list \<Rightarrow> notify_run \<Rightarrow> notify_run" where
  "notify_each now config modules priority [] run = run"
| "notify_each now config modules priority (name # names) run =
     (case notifiers config name of
        None \<Rightarrow>
          notify_each now config modules priority names
            (run\<lparr> console := console run @ [skip name] \<rparr>)
      | Some notifierConfig \<Rightarrow>
          (case createNotifier modules name notifierConfig of
             Inl err \<Rightarrow>
               notify_each now config modules priority names
                 (run\<lparr> console := console run @ [FAIL_plugin_error name (errorMessage err)],
                       allPassed := False \<rparr>)
           | Inr notifier \<Rightarrow>
               (let result = testNotifier now name notifier priority;
                    run' = run\<lparr> notify_calls := notify_calls run @ [name] \<rparr>
                in if success result
                   then notify_each now config modules priority names
                          (run'\<lparr> console := console run' @ [OK name (nc_plugin notifierConfig)] \<rparr>)
                   else notify_each now config modules priority names
                          (run'\<lparr> console := console run'
                                    @ [FAIL name (nc_plugin notifierConfig) (the (error result))],
                                 allPassed := False \<rparr>))))"

definition notify_test ::
  "string \<Rightarrow> OrchestratorConfig \<Rightarrow> (notifier_plugin \<Rightarrow> NotifierModule) \<Rightarrow> string
     \<Rightarrow> string list \<Rightarrow> notify_run" where
  "notify_test now config modules priority notifierNames =
     notify_each now config modules priority notifierNames
       \<lparr> allPassed = True, console = [], notify_calls = [] \<rparr>"

text \<open>
  The outcome of one notifier taken alone, in the claim's words: skipped without a
  configuration, failed when its \<open>create\<close> throws or its \<open>notify\<close> rejects, passed
  otherwise.
\<close>

datatype outcome = no_config | failure | success_outcome

definition outcome_of ::
  "string \<Rightarrow> OrchestratorConfig \<Rightarrow> (notifier_plugin \<Rightarrow> NotifierModule) \<Rightarrow> string
     \<Rightarrow> string \<Rightarrow> outcome" where
  "outcome_of now config modules priority name =
     (case notifiers config name of
        None \<Rightarrow> no_config
      | Some notifierConfig \<Rightarrow>
          (case createNotifier modules name notifierConfig of
             Inl err \<Rightarrow> failure
           | Inr notifier \<Rightarrow>
               (case notifier (makeTestEvent now priority) of
                  Inl err \<Rightarrow> failure
                | Inr delivered \<Rightarrow> success_outcome)))"

fun line_outcome :: "console_line \<Rightarrow> outcome" where
  "line_outcome (skip name) = no_config"
| "line_outcome (FAIL_plugin_error name msg) = failure"
| "line_outcome (OK name p) = success_outcome"
| "line_outcome (FAIL name p msg) = failure"

fun line_name :: "console_line \<Rightarrow> string" where
  "line_name (skip name) = name"
| "line_name (FAIL_plugin_error name msg) = name"
| "line_name (OK name p) = name"
| "line_name (FAIL name p msg) = name"

text \<open>Whether \<open>createNotifier\<close> returns a notifier for a configured name.\<close>

definition constructed ::
  "OrchestratorConfig \<Rightarrow> (notifier_plugin \<Rightarrow> NotifierModule) \<Rightarrow> string \<Rightarrow> bool" where
  "constructed config modules name =
     (case notifiers config name of
        None \<Rightarrow> False
      | Some notifierConfig \<Rightarrow> \<not> isl (createNotifier modules name notifierConfig))"

text \<open>
  Concrete inputs: three configured notifiers, of which the first cannot be constructed
  and the second rejects.
\<close>

definition config_three :: OrchestratorConfig where
  "config_three =
     \<lparr> projects = projects_app,
       defaults_agent = ''opencode'',
       notifiers = (\<lambda>n. if n = ''mail'' then Some \<lparr> nc_plugin = ''email'', nc_rest = [] \<rparr>
                         else if n = ''hook'' then Some \<lparr> nc_plugin = ''webhook'', nc_rest = [] \<rparr>
                         else if n = ''desk'' then Some \<lparr> nc_plugin = ''desktop'', nc_rest = [] \<rparr>
                         else None) \<rparr>"

definition modules_hook_rejects :: "notifier_plugin \<Rightarrow> NotifierModule" where
  "modules_hook_rejects p options =
     (if p = webhookNotifierPlugin then Inr (\<lambda>event. Inl (Error ''connection refused''))
      else Inr (\<lambda>event. Inr ()))"

section \<open>Agent plugins: process liveness and activity\<close>

subsection \<open>String operations of the liveness checks\<close>

definition isSpace :: "char \<Rightarrow> bool" where
  "isSpace c = (c \<in> set [CHR 0x20, CHR 0x09, CHR 0x0A, CHR 0x0B, CHR 0x0C, CHR 0x0D])"

definition trimStart :: "string \<Rightarrow> string" where
  "trimStart s = dropWhile isSpace s"

definition trim :: "string \<Rightarrow> string" where
  "trim s = rev (dropWhile isSpace (rev (dropWhile isSpace s)))"

text \<open>\<open>s.split(sep)\<close> for a separator of one character; the result is never empty.\<close>

fun split_on :: "char \<Rightarrow> string \<Rightarrow> string list" where
  "split_on sep [] = [[]]"
| "split_on sep (c # cs) =
     (if c = sep then [] # split_on sep cs
      else (case split_on sep cs of [] \<Rightarrow> [[c]] | w # ws \<Rightarrow> (c # w) # ws))"

text \<open>\<open>s.split(/\s+/)\<close>: the pieces between maximal runs of white space.\<close>

function split_ws :: "string \<Rightarrow> string list" where
  "split_ws [] = [[]]"
| "split_ws (c # cs) =
     (if isSpace c then [] # split_ws (dropWhile isSpace cs)
      else (case split_ws cs of [] \<Rightarrow> [[c]] | w # ws \<Rightarrow> (c # w) # ws))"
  by pat_completeness auto
termination
  by (relation "measure length") (auto simp add: length_dropWhile_le less_Suc_eq_le)

text \<open>\<open>t.replace(/^\/dev\//, "")\<close>.\<close>

definition stripDev :: "string \<Rightarrow> string" where
  "stripDev t = (if prefix ''/dev/'' t then drop 5 t else t)"

text \<open>
  \<open>processRe.test(args)\<close> for the expression \<open>(?:^|/)NAME(?:\s|$)\<close>, in which the escaped
  process name matches itself: the name stands at the start of \<open>args\<close> or right after a
  slash, and is followed by white space or by the end of \<open>args\<close>.
\<close>

definition name_then_boundary :: "string \<Rightarrow> string \<Rightarrow> bool" where
  "name_then_boundary processName s =
     (prefix processName s
      \<and> (case drop (length processName) s of [] \<Rightarrow> True | c # cs \<Rightarrow> isSpace c))"

fun after_slash :: "string \<Rightarrow> string \<Rightarrow> bool" where
  "after_slash processName [] = False"
| "after_slash processName (c # cs) =
     ((c = CHR ''/'' \<and> name_then_boundary processName cs) \<or> after_slash processName cs)"

definition processRe_test :: "string \<Rightarrow> string \<Rightarrow> bool" where
  "processRe_test processName args =
     (name_then_boundary processName args \<or> after_slash processName args)"

subsection \<open>The operating system as the checks see it\<close>

text \<open>
  What a child process does when it is started with given arguments (it prints and
  exits, it fails, or it never exits), and what \<open>process.kill(pid, 0)\<close> does (it returns,
  or it throws an error with a code).
\<close>

datatype exec_behaviour = Exits string | Fails | Hangs

datatype kill_behaviour = Signalled | Throws string

record world =
  child_process :: "string \<Rightarrow> string list \<Rightarrow> exec_behaviour"
  kill :: "int \<Rightarrow> kill_behaviour"

text \<open>A promise is resolved with a value, rejected, or never settled.\<close>

datatype 'a promise = Resolved 'a | Rejected | Pending

text \<open>
  \<open>execFileAsync(cmd, args, {timeout})\<close>: with a positive timeout a child that does not
  exit is killed and the promise rejects; without one the promise of such a child never
  settles.
\<close>

definition execFileAsync :: "world \<Rightarrow> string \<Rightarrow> string list \<Rightarrow> nat option \<Rightarrow> string promise" where
  "execFileAsync w cmd args timeout =
     (case child_process w cmd args of
        Exits stdout \<Rightarrow> Resolved stdout
      | Fails \<Rightarrow> Rejected
      | Hangs \<Rightarrow> (case timeout of None \<Rightarrow> Pending
                            | Some ms \<Rightarrow> if ms = 0 then Pending else Rejected))"

text \<open>The calls a check makes, in order, with the timeout option of each child process.\<close>

datatype call = ExecFile string "string list" "nat option" | ProcessKill int int

subsection \<open>The shared helper \<open>isAgentProcessRunning\<close>\<close>

text \<open>The \<open>for (const line of psOut.split("\n"))\<close> loop of the helper.\<close>

fun scan_ps :: "string list \<Rightarrow> string \<Rightarrow> string list \<Rightarrow> bool" where
  "scan_ps ttySet processName [] = False"
| "scan_ps ttySet processName (line # lines) =
     (let cols = split_ws (trimStart line)
      in if length cols < 3 then scan_ps ttySet processName lines
         else if cols ! 1 \<notin> set ttySet then scan_ps ttySet processName lines
         else if processRe_test processName (join '' '' (drop 2 cols)) then True
         else scan_ps ttySet processName lines)"

definition isAgentProcessRunning ::
  "world \<Rightarrow> RuntimeHandle \<Rightarrow> string \<Rightarrow> call list \<times> bool promise" where
  "isAgentProcessRunning w handle processName =
     (if runtimeName handle = ''tmux'' \<and> handle_id handle \<noteq> [] then
        (let tmux_args = [''list-panes'', ''-t'', handle_id handle, ''-F'', ''#{pane_tty}''];
             tmux_call = ExecFile ''tmux'' tmux_args (Some 30000)
         in case execFileAsync w ''tmux'' tmux_args (Some 30000) of
              Pending \<Rightarrow> ([tmux_call], Pending)
            | Rejected \<Rightarrow> ([tmux_call], Resolved False)
            | Resolved ttyOut \<Rightarrow>
                (let ttys = filter (\<lambda>t. t \<noteq> []) (map trim (split_on (CHR 0x0A) (trim ttyOut)))
                 in if length ttys = 0 then ([tmux_call], Resolved False)
                    else (let ps_args = [''-eo'', ''pid,tty,args''];
                              ps_call = ExecFile ''ps'' ps_args (Some 30000)
                          in case execFileAsync w ''ps'' ps_args (Some 30000) of
                               Pending \<Rightarrow> ([tmux_call, ps_call], Pending)
                             | Rejected \<Rightarrow> ([tmux_call, ps_call], Resolved False)
                             | Resolved psOut \<Rightarrow>
                                 ([tmux_call, ps_call],
                                  Resolved (scan_ps (map stripDev ttys) processName
                                              (split_on (CHR 0x0A) psOut))))))
      else (case handle_pid handle of
              NotFinite \<Rightarrow> ([], Resolved False)
            | Finite pid \<Rightarrow>
                if pid > 0 then
                  (case kill w pid of
                     Signalled \<Rightarrow> ([ProcessKill pid 0], Resolved True)
                   | Throws code \<Rightarrow>
                       if code = ''EPERM'' then ([ProcessKill pid 0], Resolved True)
                       else ([ProcessKill pid 0], Resolved False))
                else ([], Resolved False)))"

subsection \<open>agent-aider\<close>

text \<open>The loop over the lines of \<open>ps\<close> in the aider plugin's own \<open>isProcessRunning\<close>.\<close>

fun aider_scan_ps :: "string \<Rightarrow> string list \<Rightarrow> bool" where
  "aider_scan_ps ttyShort [] = False"
| "aider_scan_ps ttyShort (line # lines) =
     (let cols = split_ws (trimStart line)
      in if length cols < 3 then aider_scan_ps ttyShort lines
         else if cols ! 1 \<noteq> ttyShort then aider_scan_ps ttyShort lines
         else (let args = join '' '' (drop 2 cols)
               in if args = ''aider'' \<or> prefix ''aider '' args \<or> sublist ''/aider '' args
                     \<or> sublist ''/aider'' args
                  then True
                  else aider_scan_ps ttyShort lines))"

definition aider_isProcessRunning :: "world \<Rightarrow> RuntimeHandle \<Rightarrow> call list \<times> bool promise" where
  "aider_isProcessRunning w handle =
     (if runtimeName handle = ''tmux'' \<and> handle_id handle \<noteq> [] then
        (let tmux_args = [''list-panes'', ''-t'', handle_id handle, ''-F'', ''#{pane_tty}''];
             tmux_call = ExecFile ''tmux'' tmux_args None
         in case execFileAsync w ''tmux'' tmux_args None of
              Pending \<Rightarrow> ([tmux_call], Pending)
            | Rejected \<Rightarrow> ([tmux_call], Resolved False)
            | Resolved ttyOut \<Rightarrow>
                (let tty = (case split_on (CHR 0x0A) (trim ttyOut) of [] \<Rightarrow> [] | t # ts \<Rightarrow> t)
                 in if tty = [] then ([tmux_call], Resolved False)
                    else (let ttyShort = stripDev tty;
                              ps_args = [''-eo'', ''pid,tty,args''];
                              ps_call = ExecFile ''ps'' ps_args None
                          in case execFileAsync w ''ps'' ps_args None of
                               Pending \<Rightarrow> ([tmux_call, ps_call], Pending)
                             | Rejected \<Rightarrow> ([tmux_call, ps_call], Resolved False)
                             | Resolved psOut \<Rightarrow>
                                 ([tmux_call, ps_call],
                                  Resolved (aider_scan_ps ttyShort (split_on (CHR 0x0A) psOut))))))
      else (case handle_pid handle of
              NotFinite \<Rightarrow> ([], Resolved False)
            | Finite pid \<Rightarrow>
                if pid > 0 then
                  (case kill w pid of
                     Signalled \<Rightarrow> ([ProcessKill pid 0], Resolved True)
                   | Throws code \<Rightarrow> ([ProcessKill pid 0], Resolved False))
                else ([], Resolved False)))"

datatype ActivityState = active | idle | exited

record ActivityDetection =
  activity_state :: ActivityState

text \<open>\<open>detectActivity\<close> of the aider plugin: the calls made and the state returned.\<close>

definition aider_detectActivity :: "world \<Rightarrow> Session \<Rightarrow> call list \<times> ActivityState promise" where
  "aider_detectActivity w session =
     (case runtimeHandle session of
        None \<Rightarrow> ([], Resolved exited)
      | Some handle \<Rightarrow>
          (case aider_isProcessRunning w handle of
             (calls, Pending) \<Rightarrow> (calls, Pending)
           | (calls, Rejected) \<Rightarrow> (calls, Rejected)
           | (calls, Resolved running) \<Rightarrow>
               if \<not> running then (calls, Resolved exited) else (calls, Resolved active)))"

subsection \<open>agent-codex and agent-opencode\<close>

definition codex_isProcessRunning :: "world \<Rightarrow> RuntimeHandle \<Rightarrow> call list \<times> bool promise" where
  "codex_isProcessRunning w handle = isAgentProcessRunning w handle ''codex''"

text \<open>
  \<open>getActivityState\<close>: \<open>None\<close> is \<open>null\<close>. The second parameter \<open>_readyThresholdMs\<close> is not
  used.
\<close>

definition codex_getActivityState ::
  "world \<Rightarrow> Session \<Rightarrow> nat option \<Rightarrow> call list \<times> ActivityDetection option promise" where
  "codex_getActivityState w session readyThresholdMs =
     (case runtimeHandle session of
        None \<Rightarrow> ([], Resolved (Some \<lparr> activity_state = exited \<rparr>))
      | Some handle \<Rightarrow>
          (case codex_isProcessRunning w handle of
             (calls, Pending) \<Rightarrow> (calls, Pending)
           | (calls, Rejected) \<Rightarrow> (calls, Rejected)
           | (calls, Resolved running) \<Rightarrow>
               if \<not> running then (calls, Resolved (Some \<lparr> activity_state = exited \<rparr>))
               else (calls, Resolved None)))"

definition opencode_isProcessRunning :: "world \<Rightarrow> RuntimeHandle \<Rightarrow> call list \<times> bool promise" where
  "opencode_isProcessRunning w handle = isAgentProcessRunning w handle ''opencode''"

definition opencode_getActivityState ::
  "world \<Rightarrow> Session \<Rightarrow> nat option \<Rightarrow> call list \<times> ActivityDetection option promise" where
  "opencode_getActivityState w session readyThresholdMs =
     (case runtimeHandle session of
        None \<Rightarrow> ([], Resolved (Some \<lparr> activity_state = exited \<rparr>))
      | Some handle \<Rightarrow>
          (case opencode_isProcessRunning w handle of
             (calls, Pending) \<Rightarrow> (calls, Pending)
           | (calls, Rejected) \<Rightarrow> (calls, Rejected)
           | (calls, Resolved running) \<Rightarrow>
               if \<not> running then (calls, Resolved (Some \<lparr> activity_state = exited \<rparr>))
               else (calls, Resolved None)))"

text \<open>
  Concrete inputs: a tmux handle and a bare-process handle for pid 1; a machine on which
  \<open>tmux\<close> hangs, one on which pid 1 belongs to another user, one on which aider runs in the
  second pane of the tmux session, and one on which signalling succeeds.
\<close>

definition handle_tmux :: RuntimeHandle where
  "handle_tmux = \<lparr> runtimeName = ''tmux'', handle_id = ''ao-1'', handle_pid = NotFinite \<rparr>"

definition handle_pid1 :: RuntimeHandle where
  "handle_pid1 = \<lparr> runtimeName = ''process'', handle_id = ''p1'', handle_pid = Finite 1 \<rparr>"

definition world_tmux_hangs :: world where
  "world_tmux_hangs = \<lparr> child_process = (\<lambda>cmd args. if cmd = ''tmux'' then Hangs else Fails),
                         kill = (\<lambda>pid. Throws ''ESRCH'') \<rparr>"

definition world_eperm :: world where
  "world_eperm = \<lparr> child_process = (\<lambda>cmd args. Fails), kill = (\<lambda>pid. Throws ''EPERM'') \<rparr>"

definition world_alive :: world where
  "world_alive = \<lparr> child_process = (\<lambda>cmd args. Fails), kill = (\<lambda>pid. Signalled) \<rparr>"

definition world_second_pane :: world where
  "world_second_pane =
     \<lparr> child_process = (\<lambda>cmd args.
          if cmd = ''tmux'' then Exits (''/dev/ttys001'' @ [CHR 0x0A] @ ''/dev/ttys002'' @ [CHR 0x0A])
          else if cmd = ''ps'' then
            Exits (''  PID TTY      ARGS'' @ [CHR 0x0A]
                   @ ''  101 ttys001  -zsh'' @ [CHR 0x0A]
                   @ ''  202 ttys002  /usr/bin/python3 /usr/local/bin/aider --yes'' @ [CHR 0x0A])
          else Fails),
       kill = (\<lambda>pid. Throws ''ESRCH'') \<rparr>"

definition session_of :: "RuntimeHandle option \<Rightarrow> Session" where
  "session_of h = \<lparr> session_id = ''s1'', session_projectId = ''app'', runtimeHandle = h \<rparr>"

text \<open>
  A machine on which the agents of a tmux session are alive (\<open>ps\<close> lists codex and
  opencode on the pane's tty, and signalling pid 4242 succeeds) while \<open>tmux list-panes\<close>
  does not exit; and the handle of that session.
\<close>

definition handle_live :: RuntimeHandle where
  "handle_live = \<lparr> runtimeName = ''tmux'', handle_id = ''ao-1'', handle_pid = Finite 4242 \<rparr>"

definition world_probe_hangs :: world where
  "world_probe_hangs =
     \<lparr> child_process = (\<lambda>cmd args.
          if cmd = ''tmux'' then Hangs
          else if cmd = ''ps'' then
            Exits (''  PID TTY      ARGS'' @ [CHR 0x0A]
                   @ '' 4242 ttys001  codex --model o3'' @ [CHR 0x0A]
                   @ '' 4243 ttys001  opencode run'' @ [CHR 0x0A])
          else Fails),
       kill = (\<lambda>pid. Signalled) \<rparr>"

section \<open>Properties of scm-github\<close>

text \<open>
  C1. Whenever the \<open>gh pr view\<close> call succeeds, \<open>getMergeability\<close> returns a result whose
  \<open>mergeable\<close> flag is true exactly when its blocker list is empty, and whose blockers
  are a subsequence of the fixed order CI non-passing, changes requested, review required,
  merge conflicts, still a draft. With CI passing, review decision APPROVED, no conflict
  and no draft the result is mergeable with no blocker; with CI failing and
  CHANGES_REQUESTED the blockers start with "CI is failing" followed by
  "Changes requested in review".
\<close>

theorem getMergeability_blockers:
  "\<exists>r. getMergeability (Inr data) gh_checks = Inr r
     \<and> (mergeable r \<longleftrightarrow> blockers r = [])
     \<and> subseq (blockers r) blocker_order
     \<and> (getCISummary gh_checks = passing
          \<and> toUpperCase (orEmpty (view_reviewDecision data)) = ''APPROVED''
          \<and> toUpperCase (orEmpty (view_mergeable data)) \<noteq> ''CONFLICTING''
          \<and> \<not> view_isDraft data
        \<longrightarrow> r = \<lparr> mergeable = True, ciPassing = True, approved = True,
                   noConflicts = True, blockers = [] \<rparr>)
     \<and> (getCISummary gh_checks = failing
          \<and> toUpperCase (orEmpty (view_reviewDecision data)) = ''CHANGES_REQUESTED''
        \<longrightarrow> (\<exists>rest. blockers r = ''CI is failing'' # ''Changes requested in review'' # rest))"
  apply (cases "getCISummary gh_checks")
     apply (simp_all add: getMergeability_def Let_def blocker_order_def)
  done

theorem getMergeability_blockers_witness:
  "getMergeability (Inr view_ready) (Inr checks_green)
     = Inr \<lparr> mergeable = True, ciPassing = True, approved = True, noConflicts = True,
             blockers = [] \<rparr>
   \<and> (\<exists>r rest. getMergeability (Inr view_rejected) (Inr checks_red) = Inr r
         \<and> blockers r = ''CI is failing'' # ''Changes requested in review'' # rest)"
proof -
  have a: "getCISummary (Inr checks_green) = passing" by code_simp
  have b: "toUpperCase (orEmpty (view_reviewDecision view_ready)) = ''APPROVED''" by code_simp
  have c: "toUpperCase (orEmpty (view_mergeable view_ready)) \<noteq> ''CONFLICTING''" by code_simp
  have d: "\<not> view_isDraft view_ready" by code_simp
  have e: "getCISummary (Inr checks_red) = failing" by code_simp
  have f: "toUpperCase (orEmpty (view_reviewDecision view_rejected)) = ''CHANGES_REQUESTED''"
    by code_simp
  from getMergeability_blockers [of view_ready "Inr checks_green"] a b c d
  have 1: "getMergeability (Inr view_ready) (Inr checks_green)
     = Inr \<lparr> mergeable = True, ciPassing = True, approved = True, noConflicts = True,
             blockers = [] \<rparr>"
    by auto
  from getMergeability_blockers [of view_rejected "Inr checks_red"] e f
  have 2: "\<exists>r rest. getMergeability (Inr view_rejected) (Inr checks_red) = Inr r
         \<and> blockers r = ''CI is failing'' # ''Changes requested in review'' # rest"
    by auto
  from 1 2 show ?thesis by simp
qed

text \<open>
  C8. In \<open>getMergeability\<close>, \<open>ciPassing\<close> holds exactly when the CI summary is passing or
  none; a blocker that starts with "CI is " is present exactly when the summary is failing
  or pending, and it is then "CI is " followed by that status; a pull request with no CI
  check at all has summary none, \<open>ciPassing\<close> true and no CI blocker.
\<close>

theorem getMergeability_ci_section:
  "\<exists>r. getMergeability (Inr data) gh_checks = Inr r
     \<and> (ciPassing r \<longleftrightarrow> getCISummary gh_checks = passing \<or> getCISummary gh_checks = none)
     \<and> (list_ex (prefix ''CI is '') (blockers r)
          \<longleftrightarrow> getCISummary gh_checks = failing \<or> getCISummary gh_checks = pending)
     \<and> (\<forall>b \<in> set (blockers r). prefix ''CI is '' b
          \<longrightarrow> b = ''CI is '' @ CIStatus_text (getCISummary gh_checks))
     \<and> (getCIChecks gh_checks = []
          \<longrightarrow> getCISummary gh_checks = none \<and> ciPassing r
              \<and> \<not> list_ex (prefix ''CI is '') (blockers r))"
  apply (cases "getCISummary gh_checks")
     apply (auto simp add: getMergeability_def Let_def list_ex_iff getCISummary_def)
  done

theorem getMergeability_ci_section_witness:
  "getCIChecks (Inr []) = [] \<and> getCISummary (Inr []) = none
   \<and> (\<exists>r. getMergeability (Inr view_rejected) (Inr []) = Inr r \<and> ciPassing r
         \<and> \<not> list_ex (prefix ''CI is '') (blockers r))"
proof -
  have a: "getCIChecks (Inr []) = []" by code_simp
  from getMergeability_ci_section [of view_rejected "Inr []"] a show ?thesis by auto
qed

section \<open>Properties of notifier-webhook\<close>

declare postWithRetry_from.simps [simp del]

lemma postWithRetry_from_success:
  "a \<le> k \<Longrightarrow> int k \<le> r \<Longrightarrow> (\<forall>j. a \<le> j \<and> j < k \<longrightarrow> \<not> response_ok (fetch j)) \<Longrightarrow> response_ok (fetch k)
   \<Longrightarrow> postWithRetry_from fetch u payload headers r d (int a) lastError
       = (attempts_with_delay (Fetch u ((''Content-Type'', ''application/json'') # headers) payload) d (Suc (k - a)), Inr ())"
proof (induction "k - a" arbitrary: a lastError)
  case 0
  then have "a = k" by simp
  with 0 show ?case
    by (subst postWithRetry_from.simps) (simp add: Let_def)
next
  case (Suc n)
  then have lt: "a < k" and n: "n = k - Suc a" by simp_all
  from Suc.prems lt have nok: "\<not> response_ok (fetch a)" by simp
  have ih: "postWithRetry_from fetch u payload headers r d (int (Suc a)) (Some (attempt_error (fetch a)))
       = (attempts_with_delay (Fetch u ((''Content-Type'', ''application/json'') # headers) payload) d (Suc (k - Suc a)), Inr ())"
    using Suc.hyps(1)[OF n] Suc.prems lt by simp
  have k: "k - a = Suc (k - Suc a)" using lt by simp
  have ar: "int a < r" using lt Suc.prems by simp
  show ?case
    apply (subst postWithRetry_from.simps)
    using ih nok ar k
    apply (simp add: Let_def add.commute)
    done
qed

lemma postWithRetry_from_exhausted:
  "int a \<le> r \<Longrightarrow> (\<forall>j. a \<le> j \<and> int j \<le> r \<longrightarrow> \<not> response_ok (fetch j))
   \<Longrightarrow> postWithRetry_from fetch u payload headers r d (int a) lastError
       = (attempts_with_delay (Fetch u ((''Content-Type'', ''application/json'') # headers) payload) d (Suc (nat r - a)),
          Inl (Some (attempt_error (fetch (nat r)))))"
proof (induction "nat r - a" arbitrary: a lastError)
  case 0
  then have ar: "int a = r" by simp
  then have nr: "nat r = a" by simp
  from 0 ar have nok: "\<not> response_ok (fetch a)" by simp
  have stop: "postWithRetry_from fetch u payload headers r d (r + 1) (Some (attempt_error (fetch a)))
      = ([], Inl (Some (attempt_error (fetch a))))"
    by (subst postWithRetry_from.simps) simp
  show ?case
    apply (subst postWithRetry_from.simps)
    using nok ar nr stop
    apply (simp add: Let_def)
    done
next
  case (Suc n)
  then have lt: "int a < r" and n: "n = nat r - Suc a" by simp_all
  from Suc.prems have nok: "\<not> response_ok (fetch a)" by simp
  have ih: "postWithRetry_from fetch u payload headers r d (int (Suc a)) (Some (attempt_error (fetch a)))
       = (attempts_with_delay (Fetch u ((''Content-Type'', ''application/json'') # headers) payload) d (Suc (nat r - Suc a)),
          Inl (Some (attempt_error (fetch (nat r)))))"
    using Suc.hyps(1)[OF n] Suc.prems lt by simp
  have k: "nat r - a = Suc (nat r - Suc a)" using lt by linarith
  show ?case
    apply (subst postWithRetry_from.simps)
    using ih nok lt k
    apply (simp add: Let_def add.commute)
    done
qed


lemma count_attempts_with_delay:
  "isFetch request \<Longrightarrow> length (filter isFetch (attempts_with_delay request d n)) = n"
  by (induction request d n rule: attempts_with_delay.induct) simp_all

lemma postWithRetry_delivers:
  assumes "0 \<le> r"
  shows "delivers_with_retries fetch (Fetch u ((''Content-Type'', ''application/json'') # h) p) r d
           (postWithRetry fetch u p h r d)"
proof (cases "\<exists>k. int k \<le> r \<and> response_ok (fetch k)")
  case True
  define k where "k = (LEAST k. int k \<le> r \<and> response_ok (fetch k))"
  from True have k: "int k \<le> r" "response_ok (fetch k)"
    unfolding k_def by (metis (mono_tags, lifting) LeastI_ex)+
  have least: "\<not> response_ok (fetch j)" if "j < k" for j
  proof
    assume "response_ok (fetch j)"
    moreover from that k have "int j \<le> r" by simp
    ultimately have "k \<le> j" unfolding k_def by (simp add: Least_le)
    with that show False by simp
  qed
  have "postWithRetry fetch u p h r d
      = (attempts_with_delay (Fetch u ((''Content-Type'', ''application/json'') # h) p) d (Suc k), Inr ())"
    unfolding postWithRetry_def
    using postWithRetry_from_success [of 0 k r fetch u p h d None] k least by simp
  with k least show ?thesis
    unfolding delivers_with_retries_def
    by (intro exI [of _ k]) (simp add: count_attempts_with_delay del: attempts_with_delay.simps)
next
  case False
  then have all: "\<not> response_ok (fetch j)" if "int j \<le> r" for j using that by blast
  have "postWithRetry fetch u p h r d
      = (attempts_with_delay (Fetch u ((''Content-Type'', ''application/json'') # h) p) d (Suc (nat r)),
         Inl (Some (attempt_error (fetch (nat r)))))"
    unfolding postWithRetry_def
    using postWithRetry_from_exhausted [of 0 r fetch u p h d None] assms all by simp
  with assms all show ?thesis
    unfolding delivers_with_retries_def
    by (intro exI [of _ "nat r"]) (simp add: count_attempts_with_delay del: attempts_with_delay.simps)
qed

lemma delivers_with_retries_post:
  assumes "delivers_with_retries fetch request r d run"
  shows "delivers_with_retries fetch request r d
           (case run of (effects, Inl err) \<Rightarrow> (effects, Inl err)
                      | (effects, Inr returned) \<Rightarrow> (effects, Inr v))"
proof -
  obtain effects result where run: "run = (effects, result)" by (cases run)
  from assms obtain k where k: "int k \<le> r"
      "effects = attempts_with_delay request d (Suc k)"
      "length (filter isFetch effects) = Suc k"
      "\<forall>j<k. \<not> response_ok (fetch j)"
      "if response_ok (fetch k) then \<not> isl result
       else int k = r \<and> result = Inl (Some (attempt_error (fetch k)))"
    unfolding delivers_with_retries_def run fst_conv snd_conv by blast
  show ?thesis
    unfolding delivers_with_retries_def run
    using k by (intro exI [of _ k])
      (cases result; cases "response_ok (fetch k)"; simp del: attempts_with_delay.simps)
qed

text \<open>
  C2. For a webhook notifier with a URL and retry count \<open>r \<ge> 0\<close> (2 when the configuration
  gives none), each of \<open>notify\<close>, \<open>notifyWithActions\<close> and \<open>post\<close> makes at most \<open>r + 1\<close>
  requests, with a timer of \<open>retryDelayMs\<close> (1000 when the configuration gives none)
  between consecutive requests and none after the last; it returns as soon as a request
  gets an ok response, and it throws only when all \<open>r + 1\<close> requests have failed, the error
  thrown being that of the last one.
\<close>

theorem webhook_delivery_retry:
  assumes "webhook_create config = (warnings, n)" and "\<not> jsFalsy (url n)" and "0 \<le> retries n"
  shows "delivers_with_retries fetch (request_of n (notification (serializeEvent event)))
           (retries n) (retryDelayMs n) (webhook_notify n fetch event)
       \<and> delivers_with_retries fetch
           (request_of n (notification_with_actions (serializeEvent event) actions))
           (retries n) (retryDelayMs n) (webhook_notifyWithActions n fetch event actions)
       \<and> delivers_with_retries fetch (request_of n (message msg context))
           (retries n) (retryDelayMs n) (webhook_post n fetch msg context)
       \<and> retries n = (case Option.bind config config_retries of None \<Rightarrow> 2 | Some r \<Rightarrow> r)
       \<and> retryDelayMs n = (case Option.bind config config_retryDelayMs of None \<Rightarrow> 1000 | Some d \<Rightarrow> d)"
proof -
  have 1: "delivers_with_retries fetch (request_of n (notification (serializeEvent event)))
           (retries n) (retryDelayMs n) (webhook_notify n fetch event)"
    using assms(2) postWithRetry_delivers [OF assms(3)]
    by (simp add: webhook_notify_def request_of_def)
  have "map (\<lambda>a. \<lparr> action_label = action_label a, action_url = action_url a,
                              action_callbackEndpoint = action_callbackEndpoint a \<rparr>) actions = actions"
    by (induction actions) simp_all
  then have 2: "delivers_with_retries fetch
           (request_of n (notification_with_actions (serializeEvent event) actions))
           (retries n) (retryDelayMs n) (webhook_notifyWithActions n fetch event actions)"
    using assms(2) postWithRetry_delivers [OF assms(3)]
    by (simp add: webhook_notifyWithActions_def request_of_def)
  have "delivers_with_retries fetch (request_of n (message msg context))
           (retries n) (retryDelayMs n)
           (postWithRetry fetch (the (url n)) (message msg context)
                   (customHeaders n) (retries n) (retryDelayMs n))"
    using postWithRetry_delivers [OF assms(3)] by (simp add: request_of_def)
  then have 3: "delivers_with_retries fetch (request_of n (message msg context))
           (retries n) (retryDelayMs n) (webhook_post n fetch msg context)"
    using assms(2) by (simp add: webhook_post_def delivers_with_retries_post)
  from assms(1) have 4: "retries n = (case Option.bind config config_retries of None \<Rightarrow> 2 | Some r \<Rightarrow> r)"
    and 5: "retryDelayMs n = (case Option.bind config config_retryDelayMs of None \<Rightarrow> 1000 | Some d \<Rightarrow> d)"
    by (auto simp add: webhook_create_def Let_def)
  from 1 2 3 4 5 show ?thesis by simp
qed


theorem webhook_delivery_retry_witness:
  "webhook_create (Some config_url_only) = ([], snd (webhook_create (Some config_url_only)))
   \<and> \<not> jsFalsy (url (snd (webhook_create (Some config_url_only))))
   \<and> retries (snd (webhook_create (Some config_url_only))) = 2
   \<and> retryDelayMs (snd (webhook_create (Some config_url_only))) = 1000
   \<and> delivers_with_retries fetch_third_ok
         (request_of (snd (webhook_create (Some config_url_only)))
            (notification (serializeEvent test_event))) 2 1000
         (webhook_notify (snd (webhook_create (Some config_url_only))) fetch_third_ok test_event)
   \<and> snd (webhook_notify (snd (webhook_create (Some config_url_only))) fetch_third_ok test_event)
       = Inr ()
   \<and> length (fst (webhook_notify (snd (webhook_create (Some config_url_only)))
                      fetch_third_ok test_event)) = 5
   \<and> snd (webhook_notify (snd (webhook_create (Some config_url_only))) fetch_never_ok test_event)
       = Inl (Some (Error ''ECONNRESET''))"
proof -
  define n where "n = snd (webhook_create (Some config_url_only))"
  have a: "webhook_create (Some config_url_only) = ([], n)"
    unfolding n_def by code_simp
  have b: "\<not> jsFalsy (url n)" unfolding n_def by code_simp
  have c: "retries n = 2" unfolding n_def by code_simp
  have d: "retryDelayMs n = 1000" unfolding n_def by code_simp
  have e: "snd (webhook_notify n fetch_third_ok test_event) = Inr ()"
    unfolding n_def by code_simp
  have f: "length (fst (webhook_notify n fetch_third_ok test_event)) = 5"
    unfolding n_def by code_simp
  have g: "snd (webhook_notify n fetch_never_ok test_event) = Inl (Some (Error ''ECONNRESET''))"
    unfolding n_def by code_simp
  from c have r: "0 \<le> retries n" by simp
  from webhook_delivery_retry [OF a b r, of fetch_third_ok test_event]
  have "delivers_with_retries fetch_third_ok (request_of n (notification (serializeEvent test_event)))
          (retries n) (retryDelayMs n) (webhook_notify n fetch_third_ok test_event)"
    by blast
  with c d have "delivers_with_retries fetch_third_ok
          (request_of n (notification (serializeEvent test_event))) 2 1000
          (webhook_notify n fetch_third_ok test_event)"
    by simp
  with a b c d e f g show ?thesis unfolding n_def by simp
qed

text \<open>
  C10. A webhook notifier created from a configuration without a URL does nothing:
  \<open>notify\<close> and \<open>notifyWithActions\<close> return without a request and without throwing, and
  \<open>post\<close> returns \<open>null\<close> without a request.
\<close>

theorem webhook_no_url_noop:
  assumes "webhook_create config = (warnings, n)" and "Option.bind config config_url = None"
  shows "webhook_notify n fetch event = ([], Inr ())
       \<and> webhook_notifyWithActions n fetch event actions = ([], Inr ())
       \<and> webhook_post n fetch msg context = ([], Inr None)"
proof -
  from assms have "url n = None"
    by (auto simp add: webhook_create_def Let_def)
  then have "jsFalsy (url n)" by (simp add: jsFalsy_def)
  then show ?thesis
    by (simp add: webhook_notify_def webhook_notifyWithActions_def webhook_post_def)
qed

theorem webhook_no_url_noop_witness:
  "Option.bind (None :: WebhookNotifierConfig option) config_url = None
   \<and> webhook_notify (snd (webhook_create None)) fetch_third_ok test_event = ([], Inr ())
   \<and> webhook_notifyWithActions (snd (webhook_create None)) fetch_third_ok test_event [] = ([], Inr ())
   \<and> webhook_post (snd (webhook_create None)) fetch_third_ok ''hello'' None = ([], Inr None)"
  using webhook_no_url_noop [of None "fst (webhook_create None)" "snd (webhook_create None)"
          fetch_third_ok test_event "[]" "''hello''" None]
  by simp

section \<open>Properties of the notify test command\<close>

lemma notify_each_names:
  "map line_name (console (notify_each now config modules priority names run))
     = map line_name (console run) @ names"
  by (induction names arbitrary: run)
     (auto simp add: Let_def split: option.splits sum.splits)

lemma notify_each_outcomes:
  "map line_outcome (console (notify_each now config modules priority names run))
     = map line_outcome (console run) @ map (outcome_of now config modules priority) names"
  by (induction names arbitrary: run)
     (auto simp add: Let_def outcome_of_def testNotifier_def split: option.splits sum.splits)

lemma notify_each_calls:
  "notify_calls (notify_each now config modules priority names run)
     = notify_calls run @ filter (constructed config modules) names"
  by (induction names arbitrary: run)
     (auto simp add: Let_def constructed_def split: option.splits sum.splits)

lemma notify_each_allPassed:
  "allPassed (notify_each now config modules priority names run)
     \<longleftrightarrow> allPassed run \<and> failure \<notin> set (map (outcome_of now config modules priority) names)"
  by (induction names arbitrary: run)
     (auto simp add: Let_def outcome_of_def testNotifier_def split: option.splits sum.splits)

text \<open>
  C3. For every list of notifier names, the loop of the notify test command handles each
  name in turn and prints one line per name, in order; the line's outcome is the outcome
  of that notifier taken alone (failure when its \<open>create\<close> throws or its \<open>notify\<close> rejects),
  whatever happened to the notifiers before it; \<open>notify\<close> is called on exactly the
  notifiers that could be constructed; \<open>allPassed\<close> records whether any failed; and when
  every name is configured, every outcome is a success or a failure.
\<close>

theorem notify_test_per_notifier:
  "map line_name (console (notify_test now config modules priority names)) = names
   \<and> map line_outcome (console (notify_test now config modules priority names))
       = map (outcome_of now config modules priority) names
   \<and> notify_calls (notify_test now config modules priority names)
       = filter (constructed config modules) names
   \<and> (allPassed (notify_test now config modules priority names)
        \<longleftrightarrow> failure \<notin> set (map line_outcome (console (notify_test now config modules priority names))))
   \<and> ((\<forall>name \<in> set names. notifiers config name \<noteq> None)
        \<longrightarrow> no_config \<notin> set (map line_outcome (console (notify_test now config modules priority names))))"
proof -
  have "outcome_of now config modules priority name \<noteq> no_config"
    if "notifiers config name \<noteq> None" for name
    using that by (auto simp add: outcome_of_def split: option.splits sum.splits)
  then have "no_config \<notin> set (map (outcome_of now config modules priority) names)"
    if "\<forall>name \<in> set names. notifiers config name \<noteq> None"
    using that by (metis (no_types, lifting) imageE list.set_map)
  then show ?thesis
    unfolding notify_test_def
    by (simp add: notify_each_names notify_each_outcomes notify_each_calls
          notify_each_allPassed)
qed

theorem notify_test_per_notifier_witness:
  "list_all (\<lambda>name. notifiers config_three name \<noteq> None) [''mail'', ''hook'', ''desk'']
   \<and> map line_outcome
         (console (notify_test ''0'' config_three modules_hook_rejects ''action''
                     [''mail'', ''hook'', ''desk'']))
       = [failure, failure, success_outcome]
   \<and> notify_calls (notify_test ''0'' config_three modules_hook_rejects ''action''
                     [''mail'', ''hook'', ''desk''])
       = [''hook'', ''desk'']"
proof -
  have a: "\<forall>name \<in> set [''mail'', ''hook'', ''desk'']. notifiers config_three name \<noteq> None"
    by (simp add: config_three_def)
  have b: "map (outcome_of ''0'' config_three modules_hook_rejects ''action'')
             [''mail'', ''hook'', ''desk''] = [failure, failure, success_outcome]"
    by code_simp
  have c: "filter (constructed config_three modules_hook_rejects) [''mail'', ''hook'', ''desk'']
             = [''hook'', ''desk'']"
    by code_simp
  from notify_test_per_notifier [of "''0''" config_three modules_hook_rejects "''action''"
         "[''mail'', ''hook'', ''desk'']"] a b c
  show ?thesis by simp
qed

section \<open>Properties of plugin resolution\<close>

lemma js_get_Undefined:
  "js_get obj key = Undefined \<longleftrightarrow> key \<notin> set (map fst obj) \<and> key \<notin> set objectPrototypeKeys"
  unfolding js_get_def using map_of_eq_None_iff [of obj key]
  by (auto split: option.splits)

text \<open>
  The names left out below pass the resolvers' \<open>!plugin\<close> test: \<open>getAgentByName\<close> then fails
  with a \<open>TypeError\<close> that names neither slot nor plugin, and \<open>getNotifier\<close> returns the
  inherited value.
\<close>

lemma inherited_name_is_found:
  "getAgentByName ''constructor''
     = Inl (TypeError ''Object prototype may only be an Object or null: undefined'')
   \<and> getNotifier ''toString'' = Inr (Inherited ''toString'')"
  by code_simp

text \<open>
  C6, as the code has it. A name that the lookup in the CLI's plugin table does not find
  (it is no key of the table and no name of a property inherited from
  \<open>Object.prototype\<close>) makes \<open>getAgentByName\<close>, \<open>getAgent\<close>, \<open>getSCM\<close> and \<open>getNotifier\<close> throw
  an \<open>Error\<close> whose message names the slot kind and the requested name. At the web boundary a
  runtime name that the registry does not know gives the response 500 with the error
  "Runtime plugin not found", whatever the name.
\<close>

theorem unknown_plugin_is_reported:
  "(aname \<notin> set (map fst agentPlugins) \<and> aname \<notin> set objectPrototypeKeys
      \<longrightarrow> getAgentByName aname = Inl (Error (''Unknown agent plugin: '' @ aname)))
   \<and> (pname = orElse (if jsFalsy projectId then None
                       else Option.bind (projects config (the projectId)) project_agent)
                      (defaults_agent config)
       \<and> pname \<notin> set (map fst agentPlugins) \<and> pname \<notin> set objectPrototypeKeys
      \<longrightarrow> getAgent config projectId = Inl (Error (''Unknown agent plugin: '' @ pname)))
   \<and> (sname = orElse (Option.bind (projects config pid) project_scm_plugin) ''github''
       \<and> sname \<notin> set (map fst scmPlugins) \<and> sname \<notin> set objectPrototypeKeys
      \<longrightarrow> getSCM config pid = Inl (Error (''Unknown SCM plugin: '' @ sname)))
   \<and> (nname \<notin> set (map fst notifierPlugins) \<and> nname \<notin> set objectPrototypeKeys
      \<longrightarrow> (\<exists>available. getNotifier nname
             = Inl (Error (''Unknown notifier plugin: '' @ [CHR 0x22] @ nname @ [CHR 0x22]
                           @ available))))
   \<and> (request_json = Inr (Some msg) \<and> msg \<noteq> [] \<and> sessionManager_get ident = Some session
       \<and> runtimeHandle session = Some handle
       \<and> config_projects (session_projectId session) = Some project
       \<and> project_runtime project = Some rname \<and> rname \<noteq> []
       \<and> registry_get ''runtime'' rname = None
      \<longrightarrow> POST registry_get sendMessage config_projects sessionManager_get ident request_json
            = (error_body ''Runtime plugin not found'', 500))"
proof -
  have 1: "getAgentByName aname = Inl (Error (''Unknown agent plugin: '' @ aname))"
    if "aname \<notin> set (map fst agentPlugins)" "aname \<notin> set objectPrototypeKeys"
  proof -
    from that have "js_get agentPlugins aname = Undefined" by (simp add: js_get_Undefined)
    then show ?thesis by (simp add: getAgentByName_def)
  qed
  have 2: "getAgent config projectId = Inl (Error (''Unknown agent plugin: '' @ pname))"
    if "pname = orElse (if jsFalsy projectId then None
                       else Option.bind (projects config (the projectId)) project_agent)
                      (defaults_agent config)"
       "pname \<notin> set (map fst agentPlugins)" "pname \<notin> set objectPrototypeKeys"
  proof -
    from that(2,3) have "js_get agentPlugins pname = Undefined" by (simp add: js_get_Undefined)
    with that(1) show ?thesis by (simp add: getAgent_def Let_def)
  qed
  have 3: "getSCM config pid = Inl (Error (''Unknown SCM plugin: '' @ sname))"
    if "sname = orElse (Option.bind (projects config pid) project_scm_plugin) ''github''"
       "sname \<notin> set (map fst scmPlugins)" "sname \<notin> set objectPrototypeKeys"
  proof -
    from that(2,3) have "js_get scmPlugins sname = Undefined" by (simp add: js_get_Undefined)
    with that(1) show ?thesis by (simp add: getSCM_def Let_def)
  qed
  have 4: "\<exists>available. getNotifier nname
             = Inl (Error (''Unknown notifier plugin: '' @ [CHR 0x22] @ nname @ [CHR 0x22]
                           @ available))"
    if "nname \<notin> set (map fst notifierPlugins)" "nname \<notin> set objectPrototypeKeys"
  proof -
    from that have "js_get notifierPlugins nname = Undefined" by (simp add: js_get_Undefined)
    then show ?thesis by (simp add: getNotifier_def)
  qed
  have 5: "POST registry_get sendMessage config_projects sessionManager_get ident request_json
            = (error_body ''Runtime plugin not found'', 500)"
    if "request_json = Inr (Some msg)" "msg \<noteq> []" "sessionManager_get ident = Some session"
       "runtimeHandle session = Some handle"
       "config_projects (session_projectId session) = Some project"
       "project_runtime project = Some rname" "rname \<noteq> []"
       "registry_get ''runtime'' rname = None"
    using that by (simp add: POST_def jsFalsy_def)
  show ?thesis
  proof (intro conjI impI)
    assume "aname \<notin> set (map fst agentPlugins) \<and> aname \<notin> set objectPrototypeKeys"
    then show "getAgentByName aname = Inl (Error (''Unknown agent plugin: '' @ aname))"
      by (elim conjE) (rule 1)
  next
    assume "pname = orElse (if jsFalsy projectId then None
                       else Option.bind (projects config (the projectId)) project_agent)
                      (defaults_agent config)
       \<and> pname \<notin> set (map fst agentPlugins) \<and> pname \<notin> set objectPrototypeKeys"
    then show "getAgent config projectId = Inl (Error (''Unknown agent plugin: '' @ pname))"
      by (elim conjE) (rule 2)
  next
    assume "sname = orElse (Option.bind (projects config pid) project_scm_plugin) ''github''
       \<and> sname \<notin> set (map fst scmPlugins) \<and> sname \<notin> set objectPrototypeKeys"
    then show "getSCM config pid = Inl (Error (''Unknown SCM plugin: '' @ sname))"
      by (elim conjE) (rule 3)
  next
    assume "nname \<notin> set (map fst notifierPlugins) \<and> nname \<notin> set objectPrototypeKeys"
    then show "\<exists>available. getNotifier nname
             = Inl (Error (''Unknown notifier plugin: '' @ [CHR 0x22] @ nname @ [CHR 0x22]
                           @ available))"
      by (elim conjE) (rule 4)
  next
    assume "request_json = Inr (Some msg) \<and> msg \<noteq> [] \<and> sessionManager_get ident = Some session
       \<and> runtimeHandle session = Some handle
       \<and> config_projects (session_projectId session) = Some project
       \<and> project_runtime project = Some rname \<and> rname \<noteq> []
       \<and> registry_get ''runtime'' rname = None"
    then show "POST registry_get sendMessage config_projects sessionManager_get ident request_json
            = (error_body ''Runtime plugin not found'', 500)"
      by (elim conjE) (rule 5)
  qed
qed

theorem unknown_plugin_is_reported_witness:
  "getAgentByName ''opencode'' = Inl (Error ''Unknown agent plugin: opencode'')
   \<and> getAgent config_three (Some ''app'') = Inl (Error ''Unknown agent plugin: opencode'')
   \<and> getSCM config_three ''app'' = Inl (Error ''Unknown SCM plugin: gitlab'')
   \<and> (\<exists>available. getNotifier ''email''
         = Inl (Error (''Unknown notifier plugin: '' @ [CHR 0x22] @ ''email'' @ [CHR 0x22]
                       @ available)))
   \<and> POST registry_empty sendMessage_ok projects_app sessions_s1 ''s1'' (Inr (Some ''hello''))
       = (error_body ''Runtime plugin not found'', 500)"
proof -
  have a: "''opencode'' \<notin> set (map fst agentPlugins) \<and> ''opencode'' \<notin> set objectPrototypeKeys"
    by code_simp
  have p: "''opencode'' = orElse (if jsFalsy (Some ''app'') then None
                       else Option.bind (projects config_three (the (Some ''app''))) project_agent)
                      (defaults_agent config_three)"
    by code_simp
  have s: "''gitlab'' = orElse (Option.bind (projects config_three ''app'') project_scm_plugin)
                               ''github''"
    by code_simp
  have s': "''gitlab'' \<notin> set (map fst scmPlugins) \<and> ''gitlab'' \<notin> set objectPrototypeKeys"
    by code_simp
  have n: "''email'' \<notin> set (map fst notifierPlugins) \<and> ''email'' \<notin> set objectPrototypeKeys"
    by code_simp
  have r: "sessions_s1 ''s1'' = Some session_s1
       \<and> runtimeHandle session_s1
           = Some \<lparr> runtimeName = ''tmux'', handle_id = ''s1'', handle_pid = NotFinite \<rparr>
       \<and> projects_app (session_projectId session_s1) = Some project_docker
       \<and> project_runtime project_docker = Some ''docker''
       \<and> registry_empty ''runtime'' ''docker'' = None"
    by code_simp
  from unknown_plugin_is_reported
         [where aname = "''opencode''" and pname = "''opencode''" and projectId = "Some ''app''"
            and config = config_three and sname = "''gitlab''" and pid = "''app''"
            and nname = "''email''" and request_json = "Inr (Some ''hello'')"
            and msg = "''hello''" and sessionManager_get = sessions_s1 and ident = "''s1''"
            and session = session_s1
            and handle = "\<lparr> runtimeName = ''tmux'', handle_id = ''s1'', handle_pid = NotFinite \<rparr>"
            and config_projects = projects_app and project = project_docker
            and rname = "''docker''" and registry_get = registry_empty
            and sendMessage = sendMessage_ok]
       a p s s' n r
  show ?thesis by simp
qed

text \<open>
  The claim fails at the web boundary: for the unregistered runtime "docker" the response
  is the error "Runtime plugin not found", in which the requested name does not occur.
\<close>

theorem web_route_error_omits_name:
  "registry_empty ''runtime'' ''docker'' = None
   \<and> POST registry_empty sendMessage_ok projects_app sessions_s1 ''s1'' (Inr (Some ''hello''))
       = (error_body ''Runtime plugin not found'', 500)
   \<and> \<not> sublist ''docker'' ''Runtime plugin not found''"
  by code_simp

section \<open>Properties of the agent plugins\<close>

lemma isAgentProcessRunning_settles:
  "\<exists>b. snd (isAgentProcessRunning w handle processName) = Resolved b"
  by (auto simp add: isAgentProcessRunning_def execFileAsync_def Let_def
        split: exec_behaviour.splits js_number.splits kill_behaviour.splits)

lemma isAgentProcessRunning_timeouts:
  "ExecFile cmd args timeout \<in> set (fst (isAgentProcessRunning w handle processName))
     \<Longrightarrow> timeout = Some 30000"
  by (auto simp add: isAgentProcessRunning_def execFileAsync_def Let_def
        split: exec_behaviour.splits js_number.splits kill_behaviour.splits if_splits)

text \<open>
  The shared helper starts every child process with a timeout of 30000 ms, and it always
  settles with a boolean: a child that fails or does not exit makes it report false.
\<close>

theorem isAgentProcessRunning_bounded:
  "list_all (\<lambda>c. case c of ExecFile cmd args timeout \<Rightarrow> timeout = Some 30000
                           | ProcessKill pid signal \<Rightarrow> True)
     (fst (isAgentProcessRunning w handle processName))
   \<and> (\<exists>b. snd (isAgentProcessRunning w handle processName) = Resolved b)
   \<and> (runtimeName handle = ''tmux'' \<and> handle_id handle \<noteq> []
        \<and> child_process w ''tmux''
              [''list-panes'', ''-t'', handle_id handle, ''-F'', ''#{pane_tty}'']
            \<in> {Fails, Hangs}
       \<longrightarrow> snd (isAgentProcessRunning w handle processName) = Resolved False)"
proof -
  have 1: "list_all (\<lambda>c. case c of ExecFile cmd args timeout \<Rightarrow> timeout = Some 30000
                           | ProcessKill pid signal \<Rightarrow> True)
     (fst (isAgentProcessRunning w handle processName))"
    unfolding list_all_iff
    using isAgentProcessRunning_timeouts [of _ _ _ w handle processName]
    by (auto split: call.splits)
  have 3: "snd (isAgentProcessRunning w handle processName) = Resolved False"
    if "runtimeName handle = ''tmux''" "handle_id handle \<noteq> []"
       "child_process w ''tmux''
              [''list-panes'', ''-t'', handle_id handle, ''-F'', ''#{pane_tty}'']
            \<in> {Fails, Hangs}"
    using that
    by (auto simp add: isAgentProcessRunning_def execFileAsync_def Let_def)
  from 1 isAgentProcessRunning_settles [of w handle processName] 3 show ?thesis by blast
qed

theorem isAgentProcessRunning_bounded_witness:
  "runtimeName handle_tmux = ''tmux'' \<and> handle_id handle_tmux \<noteq> []
   \<and> child_process world_tmux_hangs ''tmux''
         [''list-panes'', ''-t'', handle_id handle_tmux, ''-F'', ''#{pane_tty}''] = Hangs
   \<and> snd (isAgentProcessRunning world_tmux_hangs handle_tmux ''codex'') = Resolved False"
proof -
  have a: "runtimeName handle_tmux = ''tmux'' \<and> handle_id handle_tmux \<noteq> []" by code_simp
  have b: "child_process world_tmux_hangs ''tmux''
         [''list-panes'', ''-t'', handle_id handle_tmux, ''-F'', ''#{pane_tty}''] = Hangs"
    by code_simp
  from isAgentProcessRunning_bounded [of world_tmux_hangs handle_tmux "''codex''"] a b
  show ?thesis by simp
qed

text \<open>
  C4, as the code has it. When the liveness check of the codex or the opencode plugin
  (its \<open>isProcessRunning\<close>) reports the session's process running, \<open>getActivityState\<close>
  returns \<open>null\<close>; and whatever the session, the result is \<open>null\<close> or the exited state,
  never idle or active.
\<close>

theorem getActivityState_running_is_null:
  "(runtimeHandle session = Some handle
      \<and> snd (codex_isProcessRunning w handle) = Resolved True
     \<longrightarrow> snd (codex_getActivityState w session threshold) = Resolved None)
   \<and> (runtimeHandle session = Some handle
      \<and> snd (opencode_isProcessRunning w handle) = Resolved True
     \<longrightarrow> snd (opencode_getActivityState w session threshold) = Resolved None)
   \<and> snd (codex_getActivityState w session threshold)
       \<in> {Resolved None, Resolved (Some \<lparr> activity_state = exited \<rparr>)}
   \<and> snd (opencode_getActivityState w session threshold)
       \<in> {Resolved None, Resolved (Some \<lparr> activity_state = exited \<rparr>)}"
proof -
  have c: "snd (codex_getActivityState w session threshold)
       \<in> {Resolved None, Resolved (Some \<lparr> activity_state = exited \<rparr>)}"
  proof (cases "runtimeHandle session")
    case None
    then show ?thesis by (simp add: codex_getActivityState_def)
  next
    case (Some h)
    obtain calls b where "isAgentProcessRunning w h ''codex'' = (calls, Resolved b)"
      using isAgentProcessRunning_settles [of w h "''codex''"]
      by (cases "isAgentProcessRunning w h ''codex''") auto
    with Some show ?thesis
      by (simp add: codex_getActivityState_def codex_isProcessRunning_def)
  qed
  have o: "snd (opencode_getActivityState w session threshold)
       \<in> {Resolved None, Resolved (Some \<lparr> activity_state = exited \<rparr>)}"
  proof (cases "runtimeHandle session")
    case None
    then show ?thesis by (simp add: opencode_getActivityState_def)
  next
    case (Some h)
    obtain calls b where "isAgentProcessRunning w h ''opencode'' = (calls, Resolved b)"
      using isAgentProcessRunning_settles [of w h "''opencode''"]
      by (cases "isAgentProcessRunning w h ''opencode''") auto
    with Some show ?thesis
      by (simp add: opencode_getActivityState_def opencode_isProcessRunning_def)
  qed
  have c1: "snd (codex_getActivityState w session threshold) = Resolved None"
    if "runtimeHandle session = Some handle" "snd (codex_isProcessRunning w handle) = Resolved True"
    using that by (cases "codex_isProcessRunning w handle") (simp add: codex_getActivityState_def)
  have o1: "snd (opencode_getActivityState w session threshold) = Resolved None"
    if "runtimeHandle session = Some handle"
       "snd (opencode_isProcessRunning w handle) = Resolved True"
    using that
    by (cases "opencode_isProcessRunning w handle") (simp add: opencode_getActivityState_def)
  from c o c1 o1 show ?thesis by blast
qed

theorem getActivityState_running_is_null_witness:
  "runtimeHandle (session_of (Some handle_pid1)) = Some handle_pid1
   \<and> snd (codex_isProcessRunning world_alive handle_pid1) = Resolved True
   \<and> snd (opencode_isProcessRunning world_alive handle_pid1) = Resolved True
   \<and> snd (codex_getActivityState world_alive (session_of (Some handle_pid1)) None) = Resolved None
   \<and> snd (opencode_getActivityState world_alive (session_of (Some handle_pid1)) None)
       = Resolved None"
proof -
  have a: "runtimeHandle (session_of (Some handle_pid1)) = Some handle_pid1"
    by (simp add: session_of_def)
  have b: "snd (codex_isProcessRunning world_alive handle_pid1) = Resolved True" by code_simp
  have c: "snd (opencode_isProcessRunning world_alive handle_pid1) = Resolved True" by code_simp
  from getActivityState_running_is_null
         [of "session_of (Some handle_pid1)" handle_pid1 world_alive None] a b c
  show ?thesis by simp
qed

text \<open>
  C4 as first stated, for every session whose process is alive, fails: on a machine where
  the agent is alive but \<open>tmux list-panes\<close> does not exit, the probe is killed at its
  timeout, the liveness check reports false, and \<open>getActivityState\<close> of both plugins
  returns exited, not \<open>null\<close>.
\<close>

theorem getActivityState_alive_but_exited:
  "kill world_probe_hangs 4242 = Signalled
   \<and> scan_ps [''ttys001''] ''codex''
         (case child_process world_probe_hangs ''ps'' [''-eo'', ''pid,tty,args''] of
            Exits psOut \<Rightarrow> split_on (CHR 0x0A) psOut | Fails \<Rightarrow> [] | Hangs \<Rightarrow> [])
   \<and> scan_ps [''ttys001''] ''opencode''
         (case child_process world_probe_hangs ''ps'' [''-eo'', ''pid,tty,args''] of
            Exits psOut \<Rightarrow> split_on (CHR 0x0A) psOut | Fails \<Rightarrow> [] | Hangs \<Rightarrow> [])
   \<and> snd (codex_getActivityState world_probe_hangs (session_of (Some handle_live)) None)
       = Resolved (Some \<lparr> activity_state = exited \<rparr>)
   \<and> snd (opencode_getActivityState world_probe_hangs (session_of (Some handle_live)) None)
       = Resolved (Some \<lparr> activity_state = exited \<rparr>)
   \<and> snd (codex_getActivityState world_probe_hangs (session_of (Some handle_live)) None)
       \<noteq> Resolved None"
  by code_simp

text \<open>
  C5. The activity check of the codex, opencode and aider plugins makes no call at all for
  a session without a runtime handle and reports exited; for a session with a handle the
  only calls it makes are those of the liveness check, and when that check reports that
  the process is not running the result is exited.
\<close>

theorem activity_check_short_circuits:
  "(runtimeHandle session = None
     \<longrightarrow> codex_getActivityState w session threshold
           = ([], Resolved (Some \<lparr> activity_state = exited \<rparr>))
         \<and> opencode_getActivityState w session threshold
           = ([], Resolved (Some \<lparr> activity_state = exited \<rparr>))
         \<and> aider_detectActivity w session = ([], Resolved exited))
   \<and> (runtimeHandle session = Some handle
     \<longrightarrow> fst (codex_getActivityState w session threshold) = fst (codex_isProcessRunning w handle)
         \<and> fst (opencode_getActivityState w session threshold)
           = fst (opencode_isProcessRunning w handle)
         \<and> fst (aider_detectActivity w session) = fst (aider_isProcessRunning w handle)
         \<and> (snd (codex_isProcessRunning w handle) = Resolved False
              \<longrightarrow> snd (codex_getActivityState w session threshold)
                    = Resolved (Some \<lparr> activity_state = exited \<rparr>))
         \<and> (snd (opencode_isProcessRunning w handle) = Resolved False
              \<longrightarrow> snd (opencode_getActivityState w session threshold)
                    = Resolved (Some \<lparr> activity_state = exited \<rparr>))
         \<and> (snd (aider_isProcessRunning w handle) = Resolved False
              \<longrightarrow> snd (aider_detectActivity w session) = Resolved exited))"
proof (intro conjI impI)
  assume "runtimeHandle session = None"
  then show "codex_getActivityState w session threshold
           = ([], Resolved (Some \<lparr> activity_state = exited \<rparr>))"
    and "opencode_getActivityState w session threshold
           = ([], Resolved (Some \<lparr> activity_state = exited \<rparr>))"
    and "aider_detectActivity w session = ([], Resolved exited)"
    by (simp_all add: codex_getActivityState_def opencode_getActivityState_def
          aider_detectActivity_def)
next
  assume h: "runtimeHandle session = Some handle"
  show "fst (codex_getActivityState w session threshold) = fst (codex_isProcessRunning w handle)"
    using h by (simp add: codex_getActivityState_def split: prod.splits promise.splits)
  show "fst (opencode_getActivityState w session threshold)
           = fst (opencode_isProcessRunning w handle)"
    using h by (simp add: opencode_getActivityState_def split: prod.splits promise.splits)
  show "fst (aider_detectActivity w session) = fst (aider_isProcessRunning w handle)"
    using h by (simp add: aider_detectActivity_def split: prod.splits promise.splits)
  show "snd (codex_getActivityState w session threshold)
          = Resolved (Some \<lparr> activity_state = exited \<rparr>)"
    if "snd (codex_isProcessRunning w handle) = Resolved False"
    using h that by (cases "codex_isProcessRunning w handle") (simp add: codex_getActivityState_def)
  show "snd (opencode_getActivityState w session threshold)
          = Resolved (Some \<lparr> activity_state = exited \<rparr>)"
    if "snd (opencode_isProcessRunning w handle) = Resolved False"
    using h that by (cases "opencode_isProcessRunning w handle") (simp add: opencode_getActivityState_def)
  show "snd (aider_detectActivity w session) = Resolved exited"
    if "snd (aider_isProcessRunning w handle) = Resolved False"
    using h that by (cases "aider_isProcessRunning w handle") (simp add: aider_detectActivity_def)
qed

theorem activity_check_short_circuits_witness:
  "runtimeHandle (session_of None) = None
   \<and> codex_getActivityState world_alive (session_of None) None
       = ([], Resolved (Some \<lparr> activity_state = exited \<rparr>))
   \<and> aider_detectActivity world_alive (session_of None) = ([], Resolved exited)
   \<and> runtimeHandle (session_of (Some handle_tmux)) = Some handle_tmux
   \<and> snd (codex_isProcessRunning world_tmux_hangs handle_tmux) = Resolved False
   \<and> snd (codex_getActivityState world_tmux_hangs (session_of (Some handle_tmux)) None)
       = Resolved (Some \<lparr> activity_state = exited \<rparr>)
   \<and> snd (aider_isProcessRunning world_eperm handle_tmux) = Resolved False
   \<and> snd (aider_detectActivity world_eperm (session_of (Some handle_tmux))) = Resolved exited"
proof -
  have a: "runtimeHandle (session_of None) = None" by (simp add: session_of_def)
  have b: "runtimeHandle (session_of (Some handle_tmux)) = Some handle_tmux"
    by (simp add: session_of_def)
  have c: "snd (codex_isProcessRunning world_tmux_hangs handle_tmux) = Resolved False"
    by code_simp
  have d: "snd (opencode_isProcessRunning world_tmux_hangs handle_tmux) = Resolved False"
    by code_simp
  have e: "snd (aider_isProcessRunning world_eperm handle_tmux) = Resolved False"
    by code_simp
  from activity_check_short_circuits [of "session_of None" world_alive None] a
  have 1: "codex_getActivityState world_alive (session_of None) None
             = ([], Resolved (Some \<lparr> activity_state = exited \<rparr>))
           \<and> aider_detectActivity world_alive (session_of None) = ([], Resolved exited)"
    by simp
  from activity_check_short_circuits
         [of "session_of (Some handle_tmux)" world_tmux_hangs None handle_tmux] b c
  have 2: "snd (codex_getActivityState world_tmux_hangs (session_of (Some handle_tmux)) None)
             = Resolved (Some \<lparr> activity_state = exited \<rparr>)"
    by simp
  from activity_check_short_circuits
         [of "session_of (Some handle_tmux)" world_eperm None handle_tmux] b e
  have 3: "snd (aider_detectActivity world_eperm (session_of (Some handle_tmux)))
             = Resolved exited"
    by simp
  from a b c e 1 2 3 show ?thesis by simp
qed

text \<open>
  C7 at an input where the code departs from it. On a machine where \<open>tmux list-panes\<close>
  does not exit, the aider plugin's \<open>isProcessRunning\<close> starts \<open>tmux\<close> without a timeout and
  never settles, while the shared helper starts it with a timeout of 30000 ms and
  reports false.
\<close>

theorem aider_liveness_without_timeout:
  "aider_isProcessRunning world_tmux_hangs handle_tmux
     = ([ExecFile ''tmux'' [''list-panes'', ''-t'', ''ao-1'', ''-F'', ''#{pane_tty}''] None],
        Pending)
   \<and> isAgentProcessRunning world_tmux_hangs handle_tmux ''aider''
     = ([ExecFile ''tmux'' [''list-panes'', ''-t'', ''ao-1'', ''-F'', ''#{pane_tty}'']
           (Some 30000)],
        Resolved False)"
  by code_simp

text \<open>
  C9 at inputs where the code departs from it. For a bare-process handle whose pid
  belongs to another user (\<open>process.kill\<close> throws \<open>EPERM\<close>) the aider plugin reports false
  and the shared helper true; for a tmux session with aider in its second pane the aider
  plugin reports false and the shared helper true.
\<close>

theorem aider_liveness_differs_from_helper:
  "aider_isProcessRunning world_eperm handle_pid1 = ([ProcessKill 1 0], Resolved False)
   \<and> isAgentProcessRunning world_eperm handle_pid1 ''aider'' = ([ProcessKill 1 0], Resolved True)
   \<and> snd (aider_isProcessRunning world_second_pane handle_tmux) = Resolved False
   \<and> snd (isAgentProcessRunning world_second_pane handle_tmux ''aider'') = Resolved True"
  by code_simp

end
